theory Spec2Isabelle
  imports Main "HOL-Library.Sublist"
begin

section \<open>Values, tables, errors\<close>

text \<open>
  The orchestrator of AlphaPy exists in two files: \<^verbatim>\<open>src/alphapy/__main__.py\<close>, the
  package entry point, and \<^verbatim>\<open>src/alphapy/alpha.py\<close>, an earlier script. Both define
  \<^verbatim>\<open>data_pipeline\<close>, \<^verbatim>\<open>model_pipeline\<close>, \<^verbatim>\<open>score_with_model\<close> and
  \<^verbatim>\<open>main_pipeline\<close>. The definitions without a suffix embed \<^verbatim>\<open>__main__.py\<close>; the
  ones with the suffix \<open>_alpha\<close> embed \<^verbatim>\<open>alpha.py\<close>. \<^verbatim>\<open>score_with_model\<close> has the same
  body in both files and is embedded once.
\<close>

datatype ModelType = classification | regression

text \<open>
  A feature table: column labels and rows of cells. A cell is \<open>None\<close> where pandas holds
  NaN. \<open>shape0\<close> and \<open>shape1\<close> are \<^verbatim>\<open>.shape[0]\<close> and \<^verbatim>\<open>.shape[1]\<close>.
\<close>

record 'a table =
  columns :: "string list"
  rows :: "'a option list list"

definition shape0 :: "'a table \<Rightarrow> nat" where
  "shape0 t = length (rows t)"

definition shape1 :: "'a table \<Rightarrow> nat" where
  "shape1 t = length (columns t)"

text \<open>
  \<^verbatim>\<open>pd.concat([a, b])\<close> with the defaults (rows stacked, outer join on the column
  labels): the result has the union of the labels, every row of \<open>a\<close> followed by every row
  of \<open>b\<close>, each row laid out again on the united labels with NaN where it has no value.
  The order pandas gives the united labels is not relied upon anywhere below.
\<close>

definition reindex :: "string list \<Rightarrow> string list \<Rightarrow> 'a option list \<Rightarrow> 'a option list" where
  "reindex cs us r = map (\<lambda>c. case map_of (zip cs r) c of None \<Rightarrow> None | Some v \<Rightarrow> v) us"

definition pd_concat :: "'a table \<Rightarrow> 'a table \<Rightarrow> 'a table" where
  "pd_concat a b =
     (let us = columns a @ filter (\<lambda>c. c \<notin> set (columns a)) (columns b)
      in \<lparr>columns = us,
          rows = map (reindex (columns a) us) (rows a) @ map (reindex (columns b) us) (rows b)\<rparr>)"

text \<open>\<^verbatim>\<open>np.array_split(t, [sp])\<close>: the rows before index \<open>sp\<close> and the rows from it on.\<close>

definition np_array_split :: "'a table \<Rightarrow> nat \<Rightarrow> 'a table \<times> 'a table" where
  "np_array_split t sp = (t\<lparr>rows := take sp (rows t)\<rparr>, t\<lparr>rows := drop sp (rows t)\<rparr>)"

text \<open>
  Exceptions as values. The first three are raised by the orchestrator itself: the
  message template and the arguments of its \<^verbatim>\<open>raise\<close> statement, or the name of the
  unbound local. \<open>ExternalError\<close> is an exception that came out of a collaborator, with
  the collaborator's description of it.
\<close>

datatype error =
    IndexError string "nat list"
  | KeyError string "string list"
  | UnboundLocalError string
  | ExternalError string

section \<open>Configuration, model aggregate, estimators\<close>

text \<open>
  \<^verbatim>\<open>model.specs\<close>, the resolved configuration, with the keys the four functions read.
  The key \<^verbatim>\<open>'drop'\<close> is the field \<open>drop_spec\<close> and the key \<^verbatim>\<open>'scoring'\<close> (read by
  \<^verbatim>\<open>__main__.py\<close>) is \<open>scoring_spec\<close>; \<^verbatim>\<open>'scoring_mode'\<close> is the key \<^verbatim>\<open>alpha.py\<close> reads.
\<close>

record specs =
  calibration :: bool
  directory :: string
  drop_spec :: "string list"
  feature_selection :: bool
  grid_search :: bool
  model_type :: ModelType
  rfe :: bool
  sampling :: bool
  scorer :: string
  scoring_spec :: bool
  scoring_mode :: bool
  target :: string
  test_labels :: bool

text \<open>
  The \<^verbatim>\<open>Model\<close> object. The orchestrator reads three attributes; whatever else the
  collaborators keep in it lives in the extension of the record.
\<close>

record 'a model =
  specs :: specs
  algolist :: "string list"
  X_test :: "'a table"

text \<open>
  A registry entry (\<^verbatim>\<open>estimators[algo]\<close>) with its two attributes, and the estimator
  object behind it, of which the orchestrator only asks \<^verbatim>\<open>hasattr(est, "coef_")\<close>.
\<close>

record sk_estimator =
  attrs :: "string list"

definition hasattr :: "sk_estimator \<Rightarrow> string \<Rightarrow> bool" where
  "hasattr e a = (a \<in> set (attrs e))"

record Estimator =
  scoring :: bool
  estimator :: sk_estimator

section \<open>Events and collaborators\<close>

text \<open>
  An argument of a log call: a string, a number, a list of strings, or an array whose
  contents are not modelled (\<open>Arr\<close>).
\<close>

datatype logarg = Str string | Num nat | Strs "string list" | Arr

text \<open>
  What a run does, in order: every \<^verbatim>\<open>logger.info\<close> (template and arguments) and every
  call of a collaborator, with the arguments of the call.
\<close>

datatype ('m, 'a, 'p) event =
    Info string "logarg list"
  | GetData 'm string
  | DropFeatures "'a table" "string list"
  | CreateFeatures "'a table" 'm nat "'a list"
  | SaveFeatures 'm "'a table" "'a table" "'a list option" "'a list option"
  | CreateInteractions "'a table" 'm
  | RemoveLvFeatures "'a table"
  | ShuffleData 'm
  | SampleData 'm
  | GetSampleWeights 'm
  | GetEstimators 'm
  | SelectFeatures 'm
  | FirstFit 'm string sk_estimator
  | RfecvSearch 'm string
  | RfeSearch 'm string
  | HyperGridSearch 'm Estimator
  | MakePredictions 'm string bool
  | PredictBlend 'm
  | GenerateMetrics 'm string
  | PredictBest 'm
  | GeneratePlots 'm string
  | SaveModel 'm string string
  | LoadModelObject string
  | Predict 'p "'a table"
  | PredictProba 'p "'a table"

text \<open>
  The collaborators the two files import from the other modules of the package
  (\<^verbatim>\<open>data\<close>, \<^verbatim>\<open>features\<close>, \<^verbatim>\<open>estimators\<close>, \<^verbatim>\<open>model\<close>, \<^verbatim>\<open>optimize\<close>, \<^verbatim>\<open>plots\<close>) and the
  predictor's two methods. Their code is not part of the two files, so they are
  parameters. Any of them may return (\<open>Inr\<close>) or raise (\<open>Inl\<close>, with a description of
  the exception). \<open>scorers\<close> holds the keys of the scorer registry, \<open>persisted\<close> the
  predictor stored under each directory, if any.
\<close>

record ('m, 'a, 'p) collab =
  get_data :: "'m \<Rightarrow> string \<Rightarrow> string + ('a table \<times> 'a list)"
  drop_features :: "'a table \<Rightarrow> string list \<Rightarrow> string + 'a table"
  create_features :: "'a table \<Rightarrow> 'm \<Rightarrow> nat \<Rightarrow> 'a list \<Rightarrow> string + 'a table"
  save_features :: "'m \<Rightarrow> 'a table \<Rightarrow> 'a table \<Rightarrow> 'a list option \<Rightarrow> 'a list option \<Rightarrow> string + 'm"
  create_interactions :: "'a table \<Rightarrow> 'm \<Rightarrow> string + 'a table"
  remove_lv_features :: "'a table \<Rightarrow> string + 'a table"
  shuffle_data :: "'m \<Rightarrow> string + 'm"
  sample_data :: "'m \<Rightarrow> string + 'm"
  get_sample_weights :: "'m \<Rightarrow> string + 'm"
  get_estimators :: "'m \<Rightarrow> string + (string \<rightharpoonup> Estimator)"
  scorers :: "string list"
  select_features :: "'m \<Rightarrow> string + 'm"
  first_fit :: "'m \<Rightarrow> string \<Rightarrow> sk_estimator \<Rightarrow> string + 'm"
  rfecv_search :: "'m \<Rightarrow> string \<Rightarrow> string + 'm"
  rfe_search :: "'m \<Rightarrow> string \<Rightarrow> string + 'm"
  hyper_grid_search :: "'m \<Rightarrow> Estimator \<Rightarrow> string + 'm"
  make_predictions :: "'m \<Rightarrow> string \<Rightarrow> bool \<Rightarrow> string + 'm"
  predict_blend :: "'m \<Rightarrow> string + 'm"
  generate_metrics :: "'m \<Rightarrow> string \<Rightarrow> string + 'm"
  predict_best :: "'m \<Rightarrow> string + 'm"
  generate_plots :: "'m \<Rightarrow> string \<Rightarrow> string + unit"
  save_model :: "'m \<Rightarrow> string \<Rightarrow> string \<Rightarrow> string + unit"
  persisted :: "string \<rightharpoonup> 'p"
  predict :: "'p \<Rightarrow> 'a table \<Rightarrow> string + 'a list"
  predict_proba :: "'p \<Rightarrow> 'a table \<Rightarrow> string + 'a list list"

section \<open>Sequencing\<close>

text \<open>
  A piece of the program yields the events it produced and either the exception that
  ended it or its value. \<open>seq\<close> is the semicolon: the second piece runs only when the
  first returned, and the events of both are kept in order, also when one of them
  raises. \<open>call\<close> is a call of a collaborator: the event of the call, and what the
  collaborator returned or raised.
\<close>

type_synonym ('e, 'x) act = "'e list \<times> (error + 'x)"

definition ret :: "'x \<Rightarrow> ('e, 'x) act" where
  "ret x = ([], Inr x)"

definition raise :: "error \<Rightarrow> ('e, 'x) act" where
  "raise e = ([], Inl e)"

definition info :: "string \<Rightarrow> logarg list \<Rightarrow> (('m, 'a, 'p) event, unit) act" where
  "info f as = ([Info f as], Inr ())"

definition call :: "'e \<Rightarrow> string + 'x \<Rightarrow> ('e, 'x) act" where
  "call ev r = ([ev], case r of Inl d \<Rightarrow> Inl (ExternalError d) | Inr x \<Rightarrow> Inr x)"

definition seq :: "('e, 'x) act \<Rightarrow> ('x \<Rightarrow> ('e, 'y) act) \<Rightarrow> ('e, 'y) act" where
  "seq a f =
     (case snd a of
        Inl e \<Rightarrow> (fst a, Inl e)
      | Inr x \<Rightarrow> (fst a @ fst (f x), snd (f x)))"

text \<open>
  A postcondition of a piece of the program: \<open>F\<close> holds of its events and its
  exception when it raises, \<open>R\<close> of its events and its value when it returns.
\<close>

definition post ::
  "('e list \<Rightarrow> error \<Rightarrow> bool) \<Rightarrow> ('e list \<Rightarrow> 'x \<Rightarrow> bool) \<Rightarrow> ('e, 'x) act \<Rightarrow> bool" where
  "post F R r = (case snd r of Inl e \<Rightarrow> F (fst r) e | Inr x \<Rightarrow> R (fst r) x)"

section \<open>The data pipeline\<close>

text \<open>\<^verbatim>\<open>data_pipeline\<close> of \<^verbatim>\<open>__main__.py\<close>.\<close>

definition data_pipeline ::
  "(('a, 'z) model_scheme, 'a, 'p) collab \<Rightarrow> ('a, 'z) model_scheme
    \<Rightarrow> ((('a, 'z) model_scheme, 'a, 'p) event, ('a, 'z) model_scheme) act" where
  "data_pipeline C model =
     seq (info ''DATA PIPELINE'' []) (\<lambda>_.
     let drop = drop_spec (specs model);
         model_type = model_type (specs model);
         target = target (specs model);
         test_labels = test_labels (specs model) in
     seq (call (GetData model ''train'') (get_data C model ''train'')) (\<lambda>(X_train, y_train).
     seq (call (GetData model ''test'') (get_data C model ''test'')) (\<lambda>(X_test, y_test).
     seq (info ''Dropping Features: %s'' [Strs drop]) (\<lambda>_.
     seq (call (DropFeatures X_train drop) (drop_features C X_train drop)) (\<lambda>X_train.
     seq (call (DropFeatures X_test drop) (drop_features C X_test drop)) (\<lambda>X_test.
     seq (info ''Original Feature Statistics'' []) (\<lambda>_.
     seq (info ''Number of Training Rows    : %d'' [Num (shape0 X_train)]) (\<lambda>_.
     seq (info ''Number of Training Columns : %d'' [Num (shape1 X_train)]) (\<lambda>_.
     seq (if model_type = classification then
            seq (info ''Unique Training Values for %s : %s'' [Str target, Arr]) (\<lambda>_.
            info ''Unique Training Counts for %s : %s'' [Str target, Arr])
          else ret ()) (\<lambda>_.
     seq (info ''Number of Testing Rows     : %d'' [Num (shape0 X_test)]) (\<lambda>_.
     seq (info ''Number of Testing Columns  : %d'' [Num (shape1 X_test)]) (\<lambda>_.
     seq (if model_type = classification \<and> test_labels then
            seq (info ''Unique Testing Values for %s : %s'' [Str target, Arr]) (\<lambda>_.
            info ''Unique Testing Counts for %s : %s'' [Str target, Arr])
          else ret ()) (\<lambda>_.
     seq (if shape1 X_train = shape1 X_test then
            ret (shape0 X_train, pd_concat X_train X_test)
          else
            raise (IndexError ''The number of training and test columns [%s, %s] must match.''
                     [shape1 X_train, shape1 X_test])) (\<lambda>(split_point, X).
     seq (call (CreateFeatures X model split_point y_train)
            (create_features C X model split_point y_train)) (\<lambda>new_features.
     case np_array_split new_features split_point of (X_train, X_test) \<Rightarrow>
     seq (call (SaveFeatures model X_train X_test (Some y_train) (Some y_test))
            (save_features C model X_train X_test (Some y_train) (Some y_test))) (\<lambda>model.
     seq (call (CreateInteractions new_features model)
            (create_interactions C new_features model)) (\<lambda>all_features.
     case np_array_split all_features split_point of (X_train, X_test) \<Rightarrow>
     seq (call (SaveFeatures model X_train X_test None None)
            (save_features C model X_train X_test None None)) (\<lambda>model.
     seq (call (RemoveLvFeatures all_features) (remove_lv_features C all_features)) (\<lambda>sig_features.
     case np_array_split sig_features split_point of (X_train, X_test) \<Rightarrow>
     seq (call (SaveFeatures model X_train X_test None None)
            (save_features C model X_train X_test None None)) (\<lambda>model.
     ret model))))))))))))))))))))"

text \<open>
  \<^verbatim>\<open>data_pipeline\<close> of \<^verbatim>\<open>alpha.py\<close>: no log of the dropped columns, the unique values
  of the training target are always logged and those of the test target whenever test
  labels are configured, and the names of the final features are logged.
\<close>

definition data_pipeline_alpha ::
  "(('a, 'z) model_scheme, 'a, 'p) collab \<Rightarrow> ('a, 'z) model_scheme
    \<Rightarrow> ((('a, 'z) model_scheme, 'a, 'p) event, ('a, 'z) model_scheme) act" where
  "data_pipeline_alpha C model =
     seq (info ''DATA PIPELINE'' []) (\<lambda>_.
     let drop = drop_spec (specs model);
         target = target (specs model);
         test_labels = test_labels (specs model) in
     seq (call (GetData model ''train'') (get_data C model ''train'')) (\<lambda>(X_train, y_train).
     seq (call (GetData model ''test'') (get_data C model ''test'')) (\<lambda>(X_test, y_test).
     seq (call (DropFeatures X_train drop) (drop_features C X_train drop)) (\<lambda>X_train.
     seq (call (DropFeatures X_test drop) (drop_features C X_test drop)) (\<lambda>X_test.
     seq (info ''Original Feature Statistics'' []) (\<lambda>_.
     seq (info ''Number of Training Rows    : %d'' [Num (shape0 X_train)]) (\<lambda>_.
     seq (info ''Number of Training Columns : %d'' [Num (shape1 X_train)]) (\<lambda>_.
     seq (info ''Unique Training Values for %s : %s'' [Str target, Arr]) (\<lambda>_.
     seq (info ''Unique Training Counts for %s : %s'' [Str target, Arr]) (\<lambda>_.
     seq (info ''Number of Testing Rows     : %d'' [Num (shape0 X_test)]) (\<lambda>_.
     seq (info ''Number of Testing Columns  : %d'' [Num (shape1 X_test)]) (\<lambda>_.
     seq (if test_labels then
            seq (info ''Unique Testing Values for %s : %s'' [Str target, Arr]) (\<lambda>_.
            info ''Unique Testing Counts for %s : %s'' [Str target, Arr])
          else ret ()) (\<lambda>_.
     seq (if shape1 X_train = shape1 X_test then
            ret (shape0 X_train, pd_concat X_train X_test)
          else
            raise (IndexError ''The number of training and test columns [%s, %s] must match.''
                     [shape1 X_train, shape1 X_test])) (\<lambda>(split_point, X).
     seq (call (CreateFeatures X model split_point y_train)
            (create_features C X model split_point y_train)) (\<lambda>new_features.
     case np_array_split new_features split_point of (X_train, X_test) \<Rightarrow>
     seq (call (SaveFeatures model X_train X_test (Some y_train) (Some y_test))
            (save_features C model X_train X_test (Some y_train) (Some y_test))) (\<lambda>model.
     seq (call (CreateInteractions new_features model)
            (create_interactions C new_features model)) (\<lambda>all_features.
     case np_array_split all_features split_point of (X_train, X_test) \<Rightarrow>
     seq (call (SaveFeatures model X_train X_test None None)
            (save_features C model X_train X_test None None)) (\<lambda>model.
     seq (call (RemoveLvFeatures all_features) (remove_lv_features C all_features)) (\<lambda>sig_features.
     seq (info ''Feature Names : %s'' [Arr]) (\<lambda>_.
     case np_array_split sig_features split_point of (X_train, X_test) \<Rightarrow>
     seq (call (SaveFeatures model X_train X_test None None)
            (save_features C model X_train X_test None None)) (\<lambda>model.
     ret model)))))))))))))))))))))"

section \<open>The model pipeline\<close>

text \<open>
  The three locals the loop of \<^verbatim>\<open>model_pipeline\<close> assigns inside its \<^verbatim>\<open>try\<close> block.
  A Python local is unbound until its first assignment (\<open>None\<close> here), and reading an
  unbound local raises \<^verbatim>\<open>UnboundLocalError\<close>.
\<close>

record locals =
  estimator_var :: "Estimator option"
  scoring_var :: "bool option"
  est_var :: "sk_estimator option"

definition unbound :: locals where
  "unbound = \<lparr>estimator_var = None, scoring_var = None, est_var = None\<rparr>"

definition read_local :: "string \<Rightarrow> 'x option \<Rightarrow> ('e, 'x) act" where
  "read_local name v = (case v of None \<Rightarrow> raise (UnboundLocalError name) | Some x \<Rightarrow> ret x)"

text \<open>
  The body of \<^verbatim>\<open>for algo in model.algolist\<close> in \<^verbatim>\<open>__main__.py\<close>. The \<^verbatim>\<open>try\<close> block
  assigns the three locals when \<^verbatim>\<open>estimators[algo]\<close> exists; its \<^verbatim>\<open>except KeyError\<close>
  logs and falls through to the statements after it.
\<close>

definition loop_body ::
  "(('a, 'z) model_scheme, 'a, 'p) collab \<Rightarrow> bool \<Rightarrow> bool \<Rightarrow> bool \<Rightarrow> bool
    \<Rightarrow> (string \<rightharpoonup> Estimator) \<Rightarrow> string \<Rightarrow> locals \<times> ('a, 'z) model_scheme
    \<Rightarrow> ((('a, 'z) model_scheme, 'a, 'p) event, locals \<times> ('a, 'z) model_scheme) act" where
  "loop_body C calibration' feature_selection' grid_search' rfe' estimators algo s =
     (case s of (lv, model) \<Rightarrow>
     seq (info ''Algorithm: %s'' [Str algo]) (\<lambda>_.
     seq (case estimators algo of
            Some e \<Rightarrow>
              ret (lv\<lparr>estimator_var := Some e,
                      scoring_var := Some (scoring e),
                      est_var := Some (estimator e)\<rparr>)
          | None \<Rightarrow>
              seq (info ''Algorithm %s not found'' [Str algo]) (\<lambda>_. ret lv)) (\<lambda>lv.
     seq (if feature_selection' then call (SelectFeatures model) (select_features C model)
          else ret model) (\<lambda>model.
     seq (read_local ''est'' (est_var lv)) (\<lambda>est.
     seq (call (FirstFit model algo est) (first_fit C model algo est)) (\<lambda>model.
     seq (if rfe' then
            seq (read_local ''scoring'' (scoring_var lv)) (\<lambda>scoring.
            if scoring then call (RfecvSearch model algo) (rfecv_search C model algo)
            else
              seq (read_local ''est'' (est_var lv)) (\<lambda>est.
              if hasattr est ''coef_'' then call (RfeSearch model algo) (rfe_search C model algo)
              else seq (info ''No RFE Available for %s'' [Str algo]) (\<lambda>_. ret model)))
          else ret model) (\<lambda>model.
     seq (if grid_search' then
            seq (read_local ''estimator'' (estimator_var lv)) (\<lambda>estimator.
            call (HyperGridSearch model estimator) (hyper_grid_search C model estimator))
          else ret model) (\<lambda>model.
     seq (call (MakePredictions model algo calibration')
            (make_predictions C model algo calibration')) (\<lambda>model.
     ret (lv, model))))))))))"

text \<open>
  The loop body of \<^verbatim>\<open>alpha.py\<close>: the same, except that the selector runs under
  \<^verbatim>\<open>if feature_selection and not grid_search\<close>.
\<close>

definition loop_body_alpha ::
  "(('a, 'z) model_scheme, 'a, 'p) collab \<Rightarrow> bool \<Rightarrow> bool \<Rightarrow> bool \<Rightarrow> bool
    \<Rightarrow> (string \<rightharpoonup> Estimator) \<Rightarrow> string \<Rightarrow> locals \<times> ('a, 'z) model_scheme
    \<Rightarrow> ((('a, 'z) model_scheme, 'a, 'p) event, locals \<times> ('a, 'z) model_scheme) act" where
  "loop_body_alpha C calibration' feature_selection' grid_search' rfe' estimators algo s =
     (case s of (lv, model) \<Rightarrow>
     seq (info ''Algorithm: %s'' [Str algo]) (\<lambda>_.
     seq (case estimators algo of
            Some e \<Rightarrow>
              ret (lv\<lparr>estimator_var := Some e,
                      scoring_var := Some (scoring e),
                      est_var := Some (estimator e)\<rparr>)
          | None \<Rightarrow>
              seq (info ''Algorithm %s not found'' [Str algo]) (\<lambda>_. ret lv)) (\<lambda>lv.
     seq (if feature_selection' \<and> \<not> grid_search' then
            call (SelectFeatures model) (select_features C model)
          else ret model) (\<lambda>model.
     seq (read_local ''est'' (est_var lv)) (\<lambda>est.
     seq (call (FirstFit model algo est) (first_fit C model algo est)) (\<lambda>model.
     seq (if rfe' then
            seq (read_local ''scoring'' (scoring_var lv)) (\<lambda>scoring.
            if scoring then call (RfecvSearch model algo) (rfecv_search C model algo)
            else
              seq (read_local ''est'' (est_var lv)) (\<lambda>est.
              if hasattr est ''coef_'' then call (RfeSearch model algo) (rfe_search C model algo)
              else seq (info ''No RFE Available for %s'' [Str algo]) (\<lambda>_. ret model)))
          else ret model) (\<lambda>model.
     seq (if grid_search' then
            seq (read_local ''estimator'' (estimator_var lv)) (\<lambda>estimator.
            call (HyperGridSearch model estimator) (hyper_grid_search C model estimator))
          else ret model) (\<lambda>model.
     seq (call (MakePredictions model algo calibration')
            (make_predictions C model algo calibration')) (\<lambda>model.
     ret (lv, model))))))))))"

text \<open>The \<^verbatim>\<open>for\<close> loop: the body once for each identifier, in order, until one raises.\<close>

primrec algo_loop ::
  "(('a, 'z) model_scheme, 'a, 'p) collab \<Rightarrow> bool \<Rightarrow> bool \<Rightarrow> bool \<Rightarrow> bool
    \<Rightarrow> (string \<rightharpoonup> Estimator) \<Rightarrow> string list \<Rightarrow> locals \<times> ('a, 'z) model_scheme
    \<Rightarrow> ((('a, 'z) model_scheme, 'a, 'p) event, locals \<times> ('a, 'z) model_scheme) act" where
  "algo_loop C calibration' feature_selection' grid_search' rfe' estimators [] s = ret s"
| "algo_loop C calibration' feature_selection' grid_search' rfe' estimators (algo # rest) s =
     seq (loop_body C calibration' feature_selection' grid_search' rfe' estimators algo s)
       (\<lambda>s'. algo_loop C calibration' feature_selection' grid_search' rfe' estimators rest s')"

primrec algo_loop_alpha ::
  "(('a, 'z) model_scheme, 'a, 'p) collab \<Rightarrow> bool \<Rightarrow> bool \<Rightarrow> bool \<Rightarrow> bool
    \<Rightarrow> (string \<rightharpoonup> Estimator) \<Rightarrow> string list \<Rightarrow> locals \<times> ('a, 'z) model_scheme
    \<Rightarrow> ((('a, 'z) model_scheme, 'a, 'p) event, locals \<times> ('a, 'z) model_scheme) act" where
  "algo_loop_alpha C calibration' feature_selection' grid_search' rfe' estimators [] s = ret s"
| "algo_loop_alpha C calibration' feature_selection' grid_search' rfe' estimators (algo # rest) s =
     seq (loop_body_alpha C calibration' feature_selection' grid_search' rfe' estimators algo s)
       (\<lambda>s'. algo_loop_alpha C calibration' feature_selection' grid_search' rfe' estimators rest s')"

text \<open>
  The statements of \<^verbatim>\<open>model_pipeline\<close> after its loop, the same in both files: blend,
  metrics, best model, plots, save.
\<close>

definition after_loop ::
  "(('a, 'z) model_scheme, 'a, 'p) collab \<Rightarrow> bool \<Rightarrow> ('a, 'z) model_scheme
    \<Rightarrow> ((('a, 'z) model_scheme, 'a, 'p) event, ('a, 'z) model_scheme) act" where
  "after_loop C test_labels' model =
     seq (if length (algolist model) > 1 then call (PredictBlend model) (predict_blend C model)
          else ret model) (\<lambda>model.
     seq (call (GenerateMetrics model ''train'') (generate_metrics C model ''train'')) (\<lambda>model.
     seq (call (GenerateMetrics model ''test'') (generate_metrics C model ''test'')) (\<lambda>model.
     seq (call (PredictBest model) (predict_best C model)) (\<lambda>model.
     seq (call (GeneratePlots model ''train'') (generate_plots C model ''train'')) (\<lambda>_.
     seq (if test_labels' then call (GeneratePlots model ''test'') (generate_plots C model ''test'')
          else ret ()) (\<lambda>_.
     seq (call (SaveModel model ''BEST'' ''test'') (save_model C model ''BEST'' ''test'')) (\<lambda>_.
     ret model)))))))"

text \<open>\<^verbatim>\<open>model_pipeline\<close> of \<^verbatim>\<open>__main__.py\<close>.\<close>

definition model_pipeline ::
  "(('a, 'z) model_scheme, 'a, 'p) collab \<Rightarrow> ('a, 'z) model_scheme
    \<Rightarrow> ((('a, 'z) model_scheme, 'a, 'p) event, ('a, 'z) model_scheme) act" where
  "model_pipeline C model =
     seq (info ''MODEL PIPELINE'' []) (\<lambda>_.
     let calibration = calibration (specs model);
         feature_selection = feature_selection (specs model);
         grid_search = grid_search (specs model);
         model_type = model_type (specs model);
         rfe = rfe (specs model);
         sampling = sampling (specs model);
         scorer = scorer (specs model);
         test_labels = test_labels (specs model) in
     seq (call (ShuffleData model) (shuffle_data C model)) (\<lambda>model.
     seq (if model_type = classification then
            seq (if sampling then call (SampleData model) (sample_data C model)
                 else seq (info ''Skipping Sampling'' []) (\<lambda>_. ret model)) (\<lambda>model.
            call (GetSampleWeights model) (get_sample_weights C model))
          else ret model) (\<lambda>model.
     seq (info ''Getting All Estimators'' []) (\<lambda>_.
     seq (call (GetEstimators model) (get_estimators C model)) (\<lambda>estimators.
     seq (if scorer \<notin> set (scorers C) then
            raise (KeyError ''Scorer function %s not found'' [scorer])
          else ret ()) (\<lambda>_.
     seq (info ''Selecting Models'' []) (\<lambda>_.
     seq (algo_loop C calibration feature_selection grid_search rfe estimators
            (algolist model) (unbound, model)) (\<lambda>(lv, model).
     after_loop C test_labels model))))))))"

text \<open>
  \<^verbatim>\<open>model_pipeline\<close> of \<^verbatim>\<open>alpha.py\<close>: sampling and sample weights do not depend on the
  model type, and the loop is the one of that file.
\<close>

definition model_pipeline_alpha ::
  "(('a, 'z) model_scheme, 'a, 'p) collab \<Rightarrow> ('a, 'z) model_scheme
    \<Rightarrow> ((('a, 'z) model_scheme, 'a, 'p) event, ('a, 'z) model_scheme) act" where
  "model_pipeline_alpha C model =
     seq (info ''MODEL PIPELINE'' []) (\<lambda>_.
     let calibration = calibration (specs model);
         feature_selection = feature_selection (specs model);
         grid_search = grid_search (specs model);
         rfe = rfe (specs model);
         sampling = sampling (specs model);
         scorer = scorer (specs model);
         test_labels = test_labels (specs model) in
     seq (call (ShuffleData model) (shuffle_data C model)) (\<lambda>model.
     seq (if sampling then call (SampleData model) (sample_data C model)
          else seq (info ''Skipping Sampling'' []) (\<lambda>_. ret model)) (\<lambda>model.
     seq (call (GetSampleWeights model) (get_sample_weights C model)) (\<lambda>model.
     seq (info ''Getting All Estimators'' []) (\<lambda>_.
     seq (call (GetEstimators model) (get_estimators C model)) (\<lambda>estimators.
     seq (if scorer \<notin> set (scorers C) then
            raise (KeyError ''Scorer function %s not found'' [scorer])
          else ret ()) (\<lambda>_.
     seq (info ''Selecting Models'' []) (\<lambda>_.
     seq (algo_loop_alpha C calibration feature_selection grid_search rfe estimators
            (algolist model) (unbound, model)) (\<lambda>(lv, model).
     after_loop C test_labels model)))))))))"

section \<open>The scoring path and the main pipeline\<close>

text \<open>
  Modelled from the spec: \<^verbatim>\<open>load_model_object\<close> of the module \<^verbatim>\<open>model\<close>, which is not
  among the source files. The spec gives the persistence collaborator as
  \<^verbatim>\<open>load(directory) -> model\<close>, "load fails fatally if absent": it returns the predictor
  stored under the directory and raises, naming the directory, when there is none.
\<close>

definition load_model_object :: "(string \<rightharpoonup> 'p) \<Rightarrow> string \<Rightarrow> string + 'p" where
  "load_model_object store dir =
     (case store dir of None \<Rightarrow> Inl dir | Some p \<Rightarrow> Inr p)"

text \<open>
  \<^verbatim>\<open>a[:, 1]\<close> on the two-dimensional result of \<^verbatim>\<open>predict_proba\<close>: the second entry of
  every row; NumPy raises \<^verbatim>\<open>IndexError\<close> when the rows have fewer than two entries.
\<close>

definition column1 :: "'a list list \<Rightarrow> ('e, 'a list) act" where
  "column1 a =
     (if list_all (\<lambda>r. 1 < length r) a then ret (map (\<lambda>r. r ! 1) a)
      else raise (IndexError ''index 1 is out of bounds for axis 1'' []))"

text \<open>\<^verbatim>\<open>score_with_model\<close>, the same in both files. It returns nothing.\<close>

definition score_with_model ::
  "(('a, 'z) model_scheme, 'a, 'p) collab \<Rightarrow> ('a, 'z) model_scheme
    \<Rightarrow> ((('a, 'z) model_scheme, 'a, 'p) event, unit) act" where
  "score_with_model C model =
     seq (info ''SCORING'' []) (\<lambda>_.
     let X_test = X_test model;
         directory = directory (specs model);
         model_type = model_type (specs model) in
     seq (call (LoadModelObject directory) (load_model_object (persisted C) directory)) (\<lambda>predictor.
     seq (call (Predict predictor X_test) (predict C predictor X_test)) (\<lambda>preds.
     seq (info ''Predictions: %s'' [Arr]) (\<lambda>_.
     if model_type = classification then
       seq (call (PredictProba predictor X_test) (predict_proba C predictor X_test)) (\<lambda>a.
       seq (column1 a) (\<lambda>probas.
       info ''Probabilities: %s'' [Arr]))
     else ret ()))))"

text \<open>\<^verbatim>\<open>main_pipeline\<close> of \<^verbatim>\<open>__main__.py\<close>, which reads the key \<^verbatim>\<open>'scoring'\<close>.\<close>

definition main_pipeline ::
  "(('a, 'z) model_scheme, 'a, 'p) collab \<Rightarrow> ('a, 'z) model_scheme
    \<Rightarrow> ((('a, 'z) model_scheme, 'a, 'p) event, ('a, 'z) model_scheme) act" where
  "main_pipeline C model =
     (let scoring = scoring_spec (specs model) in
      seq (data_pipeline C model) (\<lambda>model.
      seq (if scoring then seq (score_with_model C model) (\<lambda>_. ret model)
           else model_pipeline C model) (\<lambda>model.
      ret model)))"

text \<open>\<^verbatim>\<open>main_pipeline\<close> of \<^verbatim>\<open>alpha.py\<close>, which reads the key \<^verbatim>\<open>'scoring_mode'\<close>.\<close>

definition main_pipeline_alpha ::
  "(('a, 'z) model_scheme, 'a, 'p) collab \<Rightarrow> ('a, 'z) model_scheme
    \<Rightarrow> ((('a, 'z) model_scheme, 'a, 'p) event, ('a, 'z) model_scheme) act" where
  "main_pipeline_alpha C model =
     (let scoring_mode = scoring_mode (specs model) in
      seq (data_pipeline_alpha C model) (\<lambda>model.
      seq (if scoring_mode then seq (score_with_model C model) (\<lambda>_. ret model)
           else model_pipeline_alpha C model) (\<lambda>model.
      ret model)))"

section \<open>Reading a run\<close>

text \<open>
  The exception of the column check of \<^verbatim>\<open>data_pipeline\<close>: its message template and, as
  arguments, the two column counts.
\<close>

definition shape_error :: "nat \<Rightarrow> nat \<Rightarrow> error" where
  "shape_error n1 n2 =
     IndexError ''The number of training and test columns [%s, %s] must match.'' [n1, n2]"

text \<open>
  A snapshot is the pair of tables of one \<^verbatim>\<open>save_features\<close> call; a split point is the
  one handed to \<^verbatim>\<open>create_features\<close>.
\<close>

fun snapshot_of :: "('m, 'a, 'p) event \<Rightarrow> ('a table \<times> 'a table) option" where
  "snapshot_of (SaveFeatures m tr te y1 y2) = Some (tr, te)"
| "snapshot_of _ = None"

fun split_point_of :: "('m, 'a, 'p) event \<Rightarrow> nat option" where
  "split_point_of (CreateFeatures X m sp y) = Some sp"
| "split_point_of _ = None"

definition snapshots :: "('m, 'a, 'p) event list \<Rightarrow> ('a table \<times> 'a table) list" where
  "snapshots evs = List.map_filter snapshot_of evs"

definition split_points :: "('m, 'a, 'p) event list \<Rightarrow> nat list" where
  "split_points evs = List.map_filter split_point_of evs"

text \<open>
  The algorithms a run wrote artifacts for: those for which \<^verbatim>\<open>make_predictions\<close>,
  the last step of an iteration, was called and returned. The blend is the call of
  \<^verbatim>\<open>predict_blend\<close>. \<open>fits\<close> lists the algorithm and the estimator object of every call
  of \<^verbatim>\<open>first_fit\<close>.
\<close>

fun produced_algo ::
  "('m, 'a, 'p) collab \<Rightarrow> ('m, 'a, 'p) event \<Rightarrow> string option" where
  "produced_algo C (MakePredictions m a c) =
     (case make_predictions C m a c of Inl d \<Rightarrow> None | Inr m' \<Rightarrow> Some a)"
| "produced_algo C _ = None"

definition artifact_algos ::
  "('m, 'a, 'p) collab \<Rightarrow> ('m, 'a, 'p) event list \<Rightarrow> string list" where
  "artifact_algos C evs = List.map_filter (produced_algo C) evs"

text \<open>
  The algorithms that produced artifacts of their own: those among them that the
  registry resolves. An identifier the registry does not resolve has no estimator of
  its own for the loop to fit.
\<close>

definition resolved_artifact_algos ::
  "('m, 'a, 'p) collab \<Rightarrow> (string \<rightharpoonup> Estimator) \<Rightarrow> ('m, 'a, 'p) event list \<Rightarrow> string list" where
  "resolved_artifact_algos C ests evs = filter (\<lambda>a. ests a \<noteq> None) (artifact_algos C evs)"

fun fit_of :: "('m, 'a, 'p) event \<Rightarrow> (string \<times> sk_estimator) option" where
  "fit_of (FirstFit m a e) = Some (a, e)"
| "fit_of _ = None"

definition fits :: "('m, 'a, 'p) event list \<Rightarrow> (string \<times> sk_estimator) list" where
  "fits evs = List.map_filter fit_of evs"

fun is_blend :: "('m, 'a, 'p) event \<Rightarrow> bool" where
  "is_blend (PredictBlend m) = True"
| "is_blend _ = False"

text \<open>
  The calls of \<^verbatim>\<open>generate_metrics\<close>, the statement that follows the blend.
\<close>

fun is_metrics :: "('m, 'a, 'p) event \<Rightarrow> bool" where
  "is_metrics (GenerateMetrics m p) = True"
| "is_metrics _ = False"

text \<open>
  A collaborator of the model pipeline keeps the algorithm list when the model it
  returns has the list of the model it was given.
\<close>

definition keeps_algolist ::
  "(('a, 'z) model_scheme, 'a, 'p) collab \<Rightarrow> bool" where
  "keeps_algolist C =
     ((\<forall>m m'. shuffle_data C m = Inr m' \<longrightarrow> algolist m' = algolist m) \<and>
      (\<forall>m m'. sample_data C m = Inr m' \<longrightarrow> algolist m' = algolist m) \<and>
      (\<forall>m m'. get_sample_weights C m = Inr m' \<longrightarrow> algolist m' = algolist m) \<and>
      (\<forall>m m'. select_features C m = Inr m' \<longrightarrow> algolist m' = algolist m) \<and>
      (\<forall>m a e m'. first_fit C m a e = Inr m' \<longrightarrow> algolist m' = algolist m) \<and>
      (\<forall>m a m'. rfecv_search C m a = Inr m' \<longrightarrow> algolist m' = algolist m) \<and>
      (\<forall>m a m'. rfe_search C m a = Inr m' \<longrightarrow> algolist m' = algolist m) \<and>
      (\<forall>m e m'. hyper_grid_search C m e = Inr m' \<longrightarrow> algolist m' = algolist m) \<and>
      (\<forall>m a c m'. make_predictions C m a c = Inr m' \<longrightarrow> algolist m' = algolist m))"

text \<open>
  The registry of the run: what \<^verbatim>\<open>get_estimators\<close> returns, whenever it returns.
\<close>

definition registry_is ::
  "(('a, 'z) model_scheme, 'a, 'p) collab \<Rightarrow> (string \<rightharpoonup> Estimator) \<Rightarrow> bool" where
  "registry_is C ests = (\<forall>m r. get_estimators C m = Inr r \<longrightarrow> r = ests)"

text \<open>
  No collaborator of the model pipeline raises.
\<close>

definition collaborators_return ::
  "(('a, 'z) model_scheme, 'a, 'p) collab \<Rightarrow> bool" where
  "collaborators_return C =
     ((\<forall>m d. shuffle_data C m \<noteq> Inl d) \<and>
      (\<forall>m d. sample_data C m \<noteq> Inl d) \<and>
      (\<forall>m d. get_sample_weights C m \<noteq> Inl d) \<and>
      (\<forall>m d. get_estimators C m \<noteq> Inl d) \<and>
      (\<forall>m d. select_features C m \<noteq> Inl d) \<and>
      (\<forall>m a e d. first_fit C m a e \<noteq> Inl d) \<and>
      (\<forall>m a d. rfecv_search C m a \<noteq> Inl d) \<and>
      (\<forall>m a d. rfe_search C m a \<noteq> Inl d) \<and>
      (\<forall>m e d. hyper_grid_search C m e \<noteq> Inl d) \<and>
      (\<forall>m a c d. make_predictions C m a c \<noteq> Inl d) \<and>
      (\<forall>m d. predict_blend C m \<noteq> Inl d) \<and>
      (\<forall>m p d. generate_metrics C m p \<noteq> Inl d) \<and>
      (\<forall>m d. predict_best C m \<noteq> Inl d) \<and>
      (\<forall>m p d. generate_plots C m p \<noteq> Inl d) \<and>
      (\<forall>m l p d. save_model C m l p \<noteq> Inl d))"

text \<open>
  The elimination method an iteration chose, read off its events, with the algorithm it
  was chosen for.
\<close>

datatype rfe_method = CrossValidated | CoefficientBased | Skipped

fun rfe_choice_of :: "('m, 'a, 'p) event \<Rightarrow> (rfe_method \<times> string) option" where
  "rfe_choice_of (RfecvSearch m a) = Some (CrossValidated, a)"
| "rfe_choice_of (RfeSearch m a) = Some (CoefficientBased, a)"
| "rfe_choice_of (Info f as) =
     (if f = ''No RFE Available for %s'' then
        (case as of [Str a] \<Rightarrow> Some (Skipped, a) | _ \<Rightarrow> None)
      else None)"
| "rfe_choice_of _ = None"

definition rfe_choices :: "('m, 'a, 'p) event list \<Rightarrow> (rfe_method \<times> string) list" where
  "rfe_choices evs = List.map_filter rfe_choice_of evs"

text \<open>
  The three-way choice in the words of the specification: cross-validated elimination
  when the estimator exposes a usable scoring function, else coefficient-based
  elimination when it exposes linear coefficients, else skip.
\<close>

definition spec_rfe_method :: "Estimator \<Rightarrow> rfe_method" where
  "spec_rfe_method e =
     (if scoring e then CrossValidated
      else if hasattr (estimator e) ''coef_'' then CoefficientBased
      else Skipped)"

text \<open>
  The choices the specification prescribes along a list of identifiers: the three-way
  choice for each one the registry resolves, none for one it does not.
\<close>

definition spec_rfe_choices ::
  "(string \<rightharpoonup> Estimator) \<Rightarrow> string list \<Rightarrow> (rfe_method \<times> string) list" where
  "spec_rfe_choices ests algos =
     List.map_filter (\<lambda>a. map_option (\<lambda>e. (spec_rfe_method e, a)) (ests a)) algos"

text \<open>
  The three locals of the loop hold the parts of one registry entry, or are unbound.
\<close>

definition locals_hold :: "locals \<Rightarrow> Estimator option \<Rightarrow> bool" where
  "locals_hold lv held =
     (estimator_var lv = held \<and> scoring_var lv = map_option scoring held \<and>
      est_var lv = map_option estimator held)"

text \<open>
  The three-way choice along a list of identifiers, made on the entry the locals hold:
  in an iteration that is the entry of its identifier when the registry resolves it,
  and otherwise the entry held before, since the \<^verbatim>\<open>except\<close> branch assigns nothing. An
  iteration that finds the locals unbound ends the run, and the list stops there.
\<close>

fun held_rfe_choices ::
  "(string \<rightharpoonup> Estimator) \<Rightarrow> Estimator option \<Rightarrow> string list \<Rightarrow> (rfe_method \<times> string) list" where
  "held_rfe_choices ests held [] = []"
| "held_rfe_choices ests held (algo # rest) =
     (case (case ests algo of Some e \<Rightarrow> Some e | None \<Rightarrow> held) of
        None \<Rightarrow> []
      | Some e \<Rightarrow> (spec_rfe_method e, algo) # held_rfe_choices ests (Some e) rest)"

text \<open>
  The calls of the selector, the log line that opens an iteration, and the model each
  \<^verbatim>\<open>first_fit\<close> was given.
\<close>

fun is_select :: "('m, 'a, 'p) event \<Rightarrow> bool" where
  "is_select (SelectFeatures m) = True"
| "is_select _ = False"

fun is_algo_log :: "('m, 'a, 'p) event \<Rightarrow> bool" where
  "is_algo_log (Info f as) = (f = ''Algorithm: %s'')"
| "is_algo_log _ = False"

fun fit_model_of :: "('m, 'a, 'p) event \<Rightarrow> 'm option" where
  "fit_model_of (FirstFit m a e) = Some m"
| "fit_model_of _ = None"

definition fit_models :: "('m, 'a, 'p) event list \<Rightarrow> 'm list" where
  "fit_models evs = List.map_filter fit_model_of evs"

text \<open>
  An observation \<open>obs\<close> of the model that, among the collaborators of the loop, the
  selector alone changes, by \<open>red\<close>: the other collaborators return a model with the
  observation they were given.
\<close>

definition selector_alone_changes ::
  "(('a, 'z) model_scheme, 'a, 'p) collab \<Rightarrow> (('a, 'z) model_scheme \<Rightarrow> 'o) \<Rightarrow> ('o \<Rightarrow> 'o) \<Rightarrow> bool" where
  "selector_alone_changes C obs red =
     ((\<forall>m m'. select_features C m = Inr m' \<longrightarrow> obs m' = red (obs m)) \<and>
      (\<forall>m a e m'. first_fit C m a e = Inr m' \<longrightarrow> obs m' = obs m) \<and>
      (\<forall>m a m'. rfecv_search C m a = Inr m' \<longrightarrow> obs m' = obs m) \<and>
      (\<forall>m a m'. rfe_search C m a = Inr m' \<longrightarrow> obs m' = obs m) \<and>
      (\<forall>m e m'. hyper_grid_search C m e = Inr m' \<longrightarrow> obs m' = obs m) \<and>
      (\<forall>m a c m'. make_predictions C m a c = Inr m' \<longrightarrow> obs m' = obs m))"

text \<open>
  The events by the function that produces them: the data pipeline, the scoring path,
  the statements of the model pipeline before its loop, and its loop with everything
  after it. A log line is told by its template.
\<close>

fun data_event :: "('m, 'a, 'p) event \<Rightarrow> bool" where
  "data_event (Info f as) =
     (f \<in> set [''DATA PIPELINE'', ''Dropping Features: %s'', ''Original Feature Statistics'',
               ''Number of Training Rows    : %d'', ''Number of Training Columns : %d'',
               ''Unique Training Values for %s : %s'', ''Unique Training Counts for %s : %s'',
               ''Number of Testing Rows     : %d'', ''Number of Testing Columns  : %d'',
               ''Unique Testing Values for %s : %s'', ''Unique Testing Counts for %s : %s'',
               ''Feature Names : %s''])"
| "data_event (GetData m part) = True"
| "data_event (DropFeatures X cs) = True"
| "data_event (CreateFeatures X m sp y) = True"
| "data_event (SaveFeatures m tr te y1 y2) = True"
| "data_event (CreateInteractions X m) = True"
| "data_event (RemoveLvFeatures X) = True"
| "data_event _ = False"

fun scoring_event :: "('m, 'a, 'p) event \<Rightarrow> bool" where
  "scoring_event (Info f as) = (f \<in> set [''SCORING'', ''Predictions: %s'', ''Probabilities: %s''])"
| "scoring_event (LoadModelObject d) = True"
| "scoring_event (Predict p X) = True"
| "scoring_event (PredictProba p X) = True"
| "scoring_event _ = False"

fun is_predict :: "('m, 'a, 'p) event \<Rightarrow> bool" where
  "is_predict (Predict p X) = True"
| "is_predict (PredictProba p X) = True"
| "is_predict _ = False"

fun prelude_event :: "('m, 'a, 'p) event \<Rightarrow> bool" where
  "prelude_event (Info f as) =
     (f \<in> set [''MODEL PIPELINE'', ''Skipping Sampling'', ''Getting All Estimators''])"
| "prelude_event (ShuffleData m) = True"
| "prelude_event (SampleData m) = True"
| "prelude_event (GetSampleWeights m) = True"
| "prelude_event (GetEstimators m) = True"
| "prelude_event _ = False"

fun loop_or_later :: "('m, 'a, 'p) event \<Rightarrow> bool" where
  "loop_or_later (Info f as) =
     (f \<in> set [''Selecting Models'', ''Algorithm: %s'', ''Algorithm %s not found'',
               ''No RFE Available for %s''])"
| "loop_or_later (SelectFeatures m) = True"
| "loop_or_later (FirstFit m a e) = True"
| "loop_or_later (RfecvSearch m a) = True"
| "loop_or_later (RfeSearch m a) = True"
| "loop_or_later (HyperGridSearch m e) = True"
| "loop_or_later (MakePredictions m a c) = True"
| "loop_or_later (PredictBlend m) = True"
| "loop_or_later (GenerateMetrics m p) = True"
| "loop_or_later (PredictBest m) = True"
| "loop_or_later (GeneratePlots m p) = True"
| "loop_or_later (SaveModel m l p) = True"
| "loop_or_later _ = False"

section \<open>A concrete run\<close>

text \<open>
  Stand-ins for the collaborators, to run the pipelines on: two training rows and one
  test row over the columns \<open>id\<close>, \<open>f1\<close>, \<open>f2\<close>; \<^verbatim>\<open>drop_features\<close> removes the named
  columns; the transforms return their input; \<^verbatim>\<open>save_features\<close> stores the test table;
  the selector removes the last column of the stored test table; the other steps return
  the model unchanged. The test table, the estimator registry and the persisted
  predictors are arguments.
\<close>

definition drop_columns :: "'a table \<Rightarrow> string list \<Rightarrow> 'a table" where
  "drop_columns t cs =
     \<lparr>columns = filter (\<lambda>c. c \<notin> set cs) (columns t),
      rows = map (\<lambda>r. map snd (filter (\<lambda>cv. fst cv \<notin> set cs) (zip (columns t) r))) (rows t)\<rparr>"

definition drop_last_column :: "'a table \<Rightarrow> 'a table" where
  "drop_last_column t = \<lparr>columns = butlast (columns t), rows = map butlast (rows t)\<rparr>"

definition demo_train :: "nat table" where
  "demo_train =
     \<lparr>columns = [''id'', ''f1'', ''f2''],
      rows = [[Some 1, Some 10, Some 20], [Some 2, Some 11, Some 21]]\<rparr>"

definition demo_test :: "nat table" where
  "demo_test = \<lparr>columns = [''id'', ''f1'', ''f2''], rows = [[Some 3, Some 12, Some 22]]\<rparr>"

definition demo_test_narrow :: "nat table" where
  "demo_test_narrow = \<lparr>columns = [''id'', ''f1''], rows = [[Some 3, Some 12]]\<rparr>"

definition est_cv :: Estimator where
  "est_cv = \<lparr>scoring = True, estimator = \<lparr>attrs = [''coef_'']\<rparr>\<rparr>"

definition est_linear :: Estimator where
  "est_linear = \<lparr>scoring = False, estimator = \<lparr>attrs = [''coef_'', ''intercept_'']\<rparr>\<rparr>"

definition est_tree :: Estimator where
  "est_tree = \<lparr>scoring = False, estimator = \<lparr>attrs = [''feature_importances_'']\<rparr>\<rparr>"

definition demo_collab ::
  "nat table \<Rightarrow> (string \<rightharpoonup> Estimator) \<Rightarrow> (string \<rightharpoonup> nat) \<Rightarrow> (nat model, nat, nat) collab" where
  "demo_collab test_table registry store =
     \<lparr>get_data = (\<lambda>m part. if part = ''train'' then Inr (demo_train, [0, 1])
                           else Inr (test_table, [1])),
      drop_features = (\<lambda>t cs. Inr (drop_columns t cs)),
      create_features = (\<lambda>X m sp y. Inr X),
      save_features = (\<lambda>m tr te y1 y2. Inr (m\<lparr>X_test := te\<rparr>)),
      create_interactions = (\<lambda>X m. Inr X),
      remove_lv_features = (\<lambda>X. Inr X),
      shuffle_data = (\<lambda>m. Inr m),
      sample_data = (\<lambda>m. Inr m),
      get_sample_weights = (\<lambda>m. Inr m),
      get_estimators = (\<lambda>m. Inr registry),
      scorers = [''roc_auc'', ''accuracy''],
      select_features = (\<lambda>m. Inr (m\<lparr>X_test := drop_last_column (X_test m)\<rparr>)),
      first_fit = (\<lambda>m a e. Inr m),
      rfecv_search = (\<lambda>m a. Inr m),
      rfe_search = (\<lambda>m a. Inr m),
      hyper_grid_search = (\<lambda>m e. Inr m),
      make_predictions = (\<lambda>m a c. Inr m),
      predict_blend = (\<lambda>m. Inr m),
      generate_metrics = (\<lambda>m part. Inr m),
      predict_best = (\<lambda>m. Inr m),
      generate_plots = (\<lambda>m part. Inr ()),
      save_model = (\<lambda>m l part. Inr ()),
      persisted = store,
      predict = (\<lambda>p X. Inr (map (\<lambda>r. p) (rows X))),
      predict_proba = (\<lambda>p X. Inr (map (\<lambda>r. [1 - p, p]) (rows X)))\<rparr>"

definition demo_specs :: specs where
  "demo_specs =
     \<lparr>calibration = False, directory = ''run'', drop_spec = [''id''],
      feature_selection = True, grid_search = False, model_type = classification,
      rfe = True, sampling = False, scorer = ''roc_auc'', scoring_spec = False,
      scoring_mode = False, target = ''y'', test_labels = True\<rparr>"

definition demo_model :: "string list \<Rightarrow> nat model" where
  "demo_model algos = \<lparr>specs = demo_specs, algolist = algos, X_test = demo_test\<rparr>"

definition demo_scoring_model :: "nat model" where
  "demo_scoring_model =
     \<lparr>specs = demo_specs\<lparr>scoring_spec := True, scoring_mode := True\<rparr>,
      algolist = [''A''], X_test = demo_test\<rparr>"

definition demo_unknown_scorer_model :: "nat model" where
  "demo_unknown_scorer_model =
     \<lparr>specs = demo_specs\<lparr>scorer := ''f1''\<rparr>, algolist = [''A''], X_test = demo_test\<rparr>"

definition demo_engineered_test :: "nat table" where
  "demo_engineered_test = \<lparr>columns = [''f1'', ''f2''], rows = [[Some 12, Some 22]]\<rparr>"

text \<open>
  Registries for the runs: one that resolves \<open>A\<close>, \<open>B\<close> and \<open>T\<close>, and one that
  resolves \<open>B\<close> alone.
\<close>

definition demo_registry :: "string \<rightharpoonup> Estimator" where
  "demo_registry = [''A'' \<mapsto> est_cv, ''B'' \<mapsto> est_linear, ''T'' \<mapsto> est_tree]"

definition demo_partial_registry :: "string \<rightharpoonup> Estimator" where
  "demo_partial_registry = [''B'' \<mapsto> est_cv]"

text \<open>The configuration of the runs with grid search enabled, over two algorithms.\<close>

definition demo_grid_model :: "nat model" where
  "demo_grid_model =
     \<lparr>specs = demo_specs\<lparr>grid_search := True\<rparr>, algolist = [''A'', ''B''], X_test = demo_test\<rparr>"

text \<open>
  The configuration of the runs without recursive feature elimination.
\<close>

definition demo_plain_model :: "string list \<Rightarrow> nat model" where
  "demo_plain_model algos =
     \<lparr>specs = demo_specs\<lparr>rfe := False\<rparr>, algolist = algos, X_test = demo_test\<rparr>"

section \<open>Lemmas on sequencing\<close>

lemma seq_ret [simp]: "seq (ret x) f = f x"
  by (simp add: seq_def ret_def)

lemma seq_raise [simp]: "seq (raise e) f = raise e"
  by (simp add: seq_def raise_def)

lemma fst_seq: "fst (seq a f) = fst a @ (case snd a of Inl e \<Rightarrow> [] | Inr x \<Rightarrow> fst (f x))"
  by (simp add: seq_def split: sum.splits)

lemma snd_seq: "snd (seq a f) = (case snd a of Inl e \<Rightarrow> Inl e | Inr x \<Rightarrow> snd (f x))"
  by (simp add: seq_def split: sum.splits)

lemma fst_ret [simp]: "fst (ret x) = []"
  by (simp add: ret_def)

lemma snd_ret [simp]: "snd (ret x) = Inr x"
  by (simp add: ret_def)

lemma fst_raise [simp]: "fst (raise e) = []"
  by (simp add: raise_def)

lemma snd_raise [simp]: "snd (raise e) = Inl e"
  by (simp add: raise_def)

lemma fst_call [simp]: "fst (call ev r) = [ev]"
  by (simp add: call_def)

lemma snd_call: "snd (call ev r) = (case r of Inl d \<Rightarrow> Inl (ExternalError d) | Inr x \<Rightarrow> Inr x)"
  by (simp add: call_def)

lemma fst_info [simp]: "fst (info s as) = [Info s as]"
  by (simp add: info_def)

lemma snd_info [simp]: "snd (info s as) = Inr ()"
  by (simp add: info_def)

lemma map_filter_append: "List.map_filter f (xs @ ys) = List.map_filter f xs @ List.map_filter f ys"
  by (simp add: List.map_filter_def)

lemmas run_simps = fst_seq snd_seq snd_call Let_def

section \<open>Lemmas on tables\<close>

lemma shape0_pd_concat: "shape0 (pd_concat a b) = shape0 a + shape0 b"
  by (simp add: shape0_def pd_concat_def Let_def)

lemma columns_pd_concat: "set (columns (pd_concat a b)) = set (columns a) \<union> set (columns b)"
  by (auto simp: pd_concat_def Let_def)

lemma shape0_split:
  "np_array_split t sp = (tr, te) \<Longrightarrow> sp \<le> shape0 t \<Longrightarrow>
     shape0 tr = sp \<and> shape0 tr + shape0 te = shape0 t"
  by (auto simp: np_array_split_def shape0_def)

lemma reindex_same:
  assumes "distinct cs" and "length r = length cs"
  shows "reindex cs cs r = r"
proof -
  have "map (\<lambda>c. case map_of (zip cs r) c of None \<Rightarrow> None | Some v \<Rightarrow> v) cs = r"
  proof (rule nth_equalityI)
    show "length (map (\<lambda>c. case map_of (zip cs r) c of None \<Rightarrow> None | Some v \<Rightarrow> v) cs) = length r"
      using assms by simp
  next
    fix i assume "i < length (map (\<lambda>c. case map_of (zip cs r) c of None \<Rightarrow> None | Some v \<Rightarrow> v) cs)"
    then have i: "i < length cs" by simp
    have "map_of (zip cs r) (cs ! i) = Some (r ! i)"
      using assms i by (simp add: map_of_zip_nth)
    then show "map (\<lambda>c. case map_of (zip cs r) c of None \<Rightarrow> None | Some v \<Rightarrow> v) cs ! i = r ! i"
      using i by simp
  qed
  then show ?thesis by (simp add: reindex_def)
qed

lemma pd_concat_same_columns:
  assumes "columns a = columns b" and "distinct (columns a)"
    and "list_all (\<lambda>r. length r = length (columns a)) (rows a)"
    and "list_all (\<lambda>r. length r = length (columns a)) (rows b)"
  shows "pd_concat a b = \<lparr>columns = columns a, rows = rows a @ rows b\<rparr>"
proof -
  have "map (reindex (columns a) (columns a)) (rows a) = rows a"
    using assms(2,3) by (simp add: list_all_iff reindex_same map_idI)
  moreover have "map (reindex (columns a) (columns a)) (rows b) = rows b"
    using assms(2,4) by (simp add: list_all_iff reindex_same map_idI)
  ultimately show ?thesis
    using assms(1) by (simp add: pd_concat_def Let_def)
qed

section \<open>The column check of the data pipeline\<close>

lemma data_pipeline_column_check_main:
  assumes "get_data C m ''train'' = Inr (Xtr0, ytr)"
    and "get_data C m ''test'' = Inr (Xte0, yte)"
    and "drop_features C Xtr0 (drop_spec (specs m)) = Inr Xtr"
    and "drop_features C Xte0 (drop_spec (specs m)) = Inr Xte"
  shows "(snd (data_pipeline C m) = Inl (shape_error (shape1 Xtr) (shape1 Xte))) = (shape1 Xtr \<noteq> shape1 Xte)"
    and "(\<exists>f ns. snd (data_pipeline C m) = Inl (IndexError f ns)) = (shape1 Xtr \<noteq> shape1 Xte)"
    and "shape1 Xtr \<noteq> shape1 Xte \<Longrightarrow> split_points (fst (data_pipeline C m)) = [] \<and> snapshots (fst (data_pipeline C m)) = []"
    and "shape1 Xtr = shape1 Xte \<Longrightarrow> CreateFeatures (pd_concat Xtr Xte) m (shape0 Xtr) ytr \<in> set (fst (data_pipeline C m))"
  using assms
     apply (simp_all add: data_pipeline_def run_simps shape_error_def np_array_split_def
      split_points_def snapshots_def map_filter_append
      split: sum.splits prod.splits)
  done

lemma data_pipeline_column_check_alpha:
  assumes "get_data C m ''train'' = Inr (Xtr0, ytr)"
    and "get_data C m ''test'' = Inr (Xte0, yte)"
    and "drop_features C Xtr0 (drop_spec (specs m)) = Inr Xtr"
    and "drop_features C Xte0 (drop_spec (specs m)) = Inr Xte"
  shows "(snd (data_pipeline_alpha C m) = Inl (shape_error (shape1 Xtr) (shape1 Xte))) = (shape1 Xtr \<noteq> shape1 Xte)"
    and "(\<exists>f ns. snd (data_pipeline_alpha C m) = Inl (IndexError f ns)) = (shape1 Xtr \<noteq> shape1 Xte)"
    and "shape1 Xtr \<noteq> shape1 Xte \<Longrightarrow> split_points (fst (data_pipeline_alpha C m)) = [] \<and> snapshots (fst (data_pipeline_alpha C m)) = []"
    and "shape1 Xtr = shape1 Xte \<Longrightarrow> CreateFeatures (pd_concat Xtr Xte) m (shape0 Xtr) ytr \<in> set (fst (data_pipeline_alpha C m))"
  using assms
     apply (simp_all add: data_pipeline_alpha_def run_simps shape_error_def np_array_split_def
      split_points_def snapshots_def map_filter_append
      split: sum.splits prod.splits)
  done

text \<open>
  C2. Once both tables are loaded and the configured columns dropped, the data pipeline
  raises the shape error, whose arguments are the two column counts, if and only if the
  counts differ; it raises no other \<^verbatim>\<open>IndexError\<close>. When the counts differ nothing is
  handed to a transform and nothing is saved. When they agree the concatenation of the
  two tables is handed to \<^verbatim>\<open>create_features\<close> with the training row count as split
  point, and the concatenation has the rows of both tables and the columns of both:
  nothing is cut to make the shapes agree. The same holds in both files.
\<close>

theorem data_pipeline_column_check:
  assumes "get_data C m ''train'' = Inr (Xtr0, ytr)"
    and "get_data C m ''test'' = Inr (Xte0, yte)"
    and "drop_features C Xtr0 (drop_spec (specs m)) = Inr Xtr"
    and "drop_features C Xte0 (drop_spec (specs m)) = Inr Xte"
  shows "((snd (data_pipeline C m) = Inl (shape_error (shape1 Xtr) (shape1 Xte)))
            = (shape1 Xtr \<noteq> shape1 Xte)) \<and>
         ((\<exists>f ns. snd (data_pipeline C m) = Inl (IndexError f ns)) = (shape1 Xtr \<noteq> shape1 Xte)) \<and>
         (shape1 Xtr \<noteq> shape1 Xte \<longrightarrow>
            split_points (fst (data_pipeline C m)) = [] \<and> snapshots (fst (data_pipeline C m)) = []) \<and>
         (shape1 Xtr = shape1 Xte \<longrightarrow>
            CreateFeatures (pd_concat Xtr Xte) m (shape0 Xtr) ytr \<in> set (fst (data_pipeline C m))) \<and>
         ((snd (data_pipeline_alpha C m) = Inl (shape_error (shape1 Xtr) (shape1 Xte)))
            = (shape1 Xtr \<noteq> shape1 Xte)) \<and>
         ((\<exists>f ns. snd (data_pipeline_alpha C m) = Inl (IndexError f ns))
            = (shape1 Xtr \<noteq> shape1 Xte)) \<and>
         (shape1 Xtr \<noteq> shape1 Xte \<longrightarrow>
            split_points (fst (data_pipeline_alpha C m)) = [] \<and>
            snapshots (fst (data_pipeline_alpha C m)) = []) \<and>
         (shape1 Xtr = shape1 Xte \<longrightarrow>
            CreateFeatures (pd_concat Xtr Xte) m (shape0 Xtr) ytr
              \<in> set (fst (data_pipeline_alpha C m))) \<and>
         shape0 (pd_concat Xtr Xte) = shape0 Xtr + shape0 Xte \<and>
         set (columns (pd_concat Xtr Xte)) = set (columns Xtr) \<union> set (columns Xte)"
  using data_pipeline_column_check_main [OF assms] data_pipeline_column_check_alpha [OF assms]
  by (simp add: shape0_pd_concat columns_pd_concat)

lemma demo_get_train:
  "get_data (demo_collab t reg st) (demo_model algos) ''train'' = Inr (demo_train, [0, 1])"
  by (simp add: demo_collab_def)

lemma demo_get_test:
  "get_data (demo_collab t reg st) (demo_model algos) ''test'' = Inr (t, [1])"
  by (simp add: demo_collab_def)

lemma demo_drop:
  "drop_features (demo_collab t reg st) X (drop_spec (specs (demo_model algos)))
     = Inr (drop_columns X [''id''])"
  by (simp add: demo_collab_def demo_model_def demo_specs_def)

lemma demo_shapes:
  "shape1 (drop_columns demo_train [''id'']) = 2"
  "shape1 (drop_columns demo_test [''id'']) = 2"
  "shape1 (drop_columns demo_test_narrow [''id'']) = 1"
  "shape0 (drop_columns demo_train [''id'']) = 2"
  "shape0 (drop_columns demo_test [''id'']) = 1"
  by (simp_all add: shape0_def shape1_def drop_columns_def demo_train_def demo_test_def demo_test_narrow_def)

theorem data_pipeline_column_check_witness:
  "snd (data_pipeline (demo_collab demo_test_narrow Map.empty Map.empty) (demo_model []))
     = Inl (shape_error 2 1) \<and>
   snd (data_pipeline_alpha (demo_collab demo_test_narrow Map.empty Map.empty) (demo_model []))
     = Inl (shape_error 2 1) \<and>
   CreateFeatures (pd_concat (drop_columns demo_train [''id'']) (drop_columns demo_test [''id'']))
       (demo_model []) 2 [0, 1]
     \<in> set (fst (data_pipeline (demo_collab demo_test Map.empty Map.empty) (demo_model [])))"
  using data_pipeline_column_check [OF demo_get_train demo_get_test demo_drop demo_drop,
      of demo_test_narrow Map.empty Map.empty "[]"]
    data_pipeline_column_check [OF demo_get_train demo_get_test demo_drop demo_drop,
      of demo_test Map.empty Map.empty "[]"]
  by (simp add: demo_shapes)

section \<open>The split point and the snapshots\<close>

lemma data_pipeline_snapshots_main:
  assumes p1: "\<forall>X mm sp y t. create_features C X mm sp y = Inr t \<longrightarrow> shape0 t = shape0 X"
    and p2: "\<forall>X mm t. create_interactions C X mm = Inr t \<longrightarrow> shape0 t = shape0 X"
    and p3: "\<forall>X t. remove_lv_features C X = Inr t \<longrightarrow> shape0 t = shape0 X"
    and g: "get_data C m ''train'' = Inr (Xtr0, ytr)" "get_data C m ''test'' = Inr (Xte0, yte)"
      "drop_features C Xtr0 (drop_spec (specs m)) = Inr Xtr"
      "drop_features C Xte0 (drop_spec (specs m)) = Inr Xte"
  shows "list_all (\<lambda>(tr, te). shape0 tr = shape0 Xtr \<and> shape0 tr + shape0 te = shape0 Xtr + shape0 Xte)
           (snapshots (fst (data_pipeline C m)))" (is ?A)
    and "list_all (\<lambda>sp. sp = shape0 Xtr) (split_points (fst (data_pipeline C m)))" (is ?B)
    and "snd (data_pipeline C m) = Inr m' \<Longrightarrow>
           length (snapshots (fst (data_pipeline C m))) = 3 \<and>
           split_points (fst (data_pipeline C m)) = [shape0 Xtr]" (is "_ \<Longrightarrow> ?C")
proof -
  have r1: "\<And>X mm sp y t. create_features C X mm sp y = Inr t \<Longrightarrow> shape0 t = shape0 X"
    using p1 by blast
  have r2: "\<And>X mm t. create_interactions C X mm = Inr t \<Longrightarrow> shape0 t = shape0 X"
    using p2 by blast
  have r3: "\<And>X t. remove_lv_features C X = Inr t \<Longrightarrow> shape0 t = shape0 X"
    using p3 by blast
  show ?A
    using g
    apply (simp add: data_pipeline_def run_simps snapshots_def map_filter_append
        split: sum.splits prod.splits)
    apply (auto dest!: r1 r2 r3 shape0_split simp: shape0_pd_concat)
    done
  show ?B
    using g
    by (simp add: data_pipeline_def run_simps split_points_def map_filter_append
        split: sum.splits prod.splits)
  show "snd (data_pipeline C m) = Inr m' \<Longrightarrow> ?C"
    using g
    by (auto simp add: data_pipeline_def run_simps snapshots_def split_points_def map_filter_append
        split: sum.splits prod.splits if_splits)
qed

lemma data_pipeline_snapshots_alpha:
  assumes p1: "\<forall>X mm sp y t. create_features C X mm sp y = Inr t \<longrightarrow> shape0 t = shape0 X"
    and p2: "\<forall>X mm t. create_interactions C X mm = Inr t \<longrightarrow> shape0 t = shape0 X"
    and p3: "\<forall>X t. remove_lv_features C X = Inr t \<longrightarrow> shape0 t = shape0 X"
    and g: "get_data C m ''train'' = Inr (Xtr0, ytr)" "get_data C m ''test'' = Inr (Xte0, yte)"
      "drop_features C Xtr0 (drop_spec (specs m)) = Inr Xtr"
      "drop_features C Xte0 (drop_spec (specs m)) = Inr Xte"
  shows "list_all (\<lambda>(tr, te). shape0 tr = shape0 Xtr \<and> shape0 tr + shape0 te = shape0 Xtr + shape0 Xte)
           (snapshots (fst (data_pipeline_alpha C m)))" (is ?A)
    and "list_all (\<lambda>sp. sp = shape0 Xtr) (split_points (fst (data_pipeline_alpha C m)))" (is ?B)
    and "snd (data_pipeline_alpha C m) = Inr m' \<Longrightarrow>
           length (snapshots (fst (data_pipeline_alpha C m))) = 3 \<and>
           split_points (fst (data_pipeline_alpha C m)) = [shape0 Xtr]" (is "_ \<Longrightarrow> ?C")
proof -
  have r1: "\<And>X mm sp y t. create_features C X mm sp y = Inr t \<Longrightarrow> shape0 t = shape0 X"
    using p1 by blast
  have r2: "\<And>X mm t. create_interactions C X mm = Inr t \<Longrightarrow> shape0 t = shape0 X"
    using p2 by blast
  have r3: "\<And>X t. remove_lv_features C X = Inr t \<Longrightarrow> shape0 t = shape0 X"
    using p3 by blast
  show ?A
    using g
    apply (simp add: data_pipeline_alpha_def run_simps snapshots_def map_filter_append
        split: sum.splits prod.splits)
    apply (auto dest!: r1 r2 r3 shape0_split simp: shape0_pd_concat)
    done
  show ?B
    using g
    by (simp add: data_pipeline_alpha_def run_simps split_points_def map_filter_append
        split: sum.splits prod.splits)
  show "snd (data_pipeline_alpha C m) = Inr m' \<Longrightarrow> ?C"
    using g
    by (auto simp add: data_pipeline_alpha_def run_simps snapshots_def split_points_def map_filter_append
        split: sum.splits prod.splits if_splits)
qed

text \<open>
  C3. Provided each of the three external transforms returns as many rows as it was
  given: the split point handed on at the merge is the row count of the training table
  at that moment; every snapshot saved afterwards has a training table of exactly that
  many rows, and the rows of its two tables add up to the rows of the two tables that
  were merged; a run that returns has made one merge and saved three snapshots. The same
  holds in both files.
\<close>

theorem split_point_invariant:
  assumes "\<forall>X mm sp y t. create_features C X mm sp y = Inr t \<longrightarrow> shape0 t = shape0 X"
    and "\<forall>X mm t. create_interactions C X mm = Inr t \<longrightarrow> shape0 t = shape0 X"
    and "\<forall>X t. remove_lv_features C X = Inr t \<longrightarrow> shape0 t = shape0 X"
    and "get_data C m ''train'' = Inr (Xtr0, ytr)"
    and "get_data C m ''test'' = Inr (Xte0, yte)"
    and "drop_features C Xtr0 (drop_spec (specs m)) = Inr Xtr"
    and "drop_features C Xte0 (drop_spec (specs m)) = Inr Xte"
  shows "list_all (\<lambda>sp. sp = shape0 Xtr) (split_points (fst (data_pipeline C m))) \<and>
         list_all (\<lambda>(tr, te). shape0 tr = shape0 Xtr \<and>
                     shape0 tr + shape0 te = shape0 Xtr + shape0 Xte)
           (snapshots (fst (data_pipeline C m))) \<and>
         (\<forall>m'. snd (data_pipeline C m) = Inr m' \<longrightarrow>
            length (snapshots (fst (data_pipeline C m))) = 3 \<and>
            split_points (fst (data_pipeline C m)) = [shape0 Xtr]) \<and>
         list_all (\<lambda>sp. sp = shape0 Xtr) (split_points (fst (data_pipeline_alpha C m))) \<and>
         list_all (\<lambda>(tr, te). shape0 tr = shape0 Xtr \<and>
                     shape0 tr + shape0 te = shape0 Xtr + shape0 Xte)
           (snapshots (fst (data_pipeline_alpha C m))) \<and>
         (\<forall>m'. snd (data_pipeline_alpha C m) = Inr m' \<longrightarrow>
            length (snapshots (fst (data_pipeline_alpha C m))) = 3 \<and>
            split_points (fst (data_pipeline_alpha C m)) = [shape0 Xtr])"
  using data_pipeline_snapshots_main [OF assms] data_pipeline_snapshots_alpha [OF assms]
  by blast

lemma demo_row_preserving:
  "\<forall>X mm sp y u. create_features (demo_collab t reg st) X mm sp y = Inr u \<longrightarrow> shape0 u = shape0 X"
  "\<forall>X mm u. create_interactions (demo_collab t reg st) X mm = Inr u \<longrightarrow> shape0 u = shape0 X"
  "\<forall>X u. remove_lv_features (demo_collab t reg st) X = Inr u \<longrightarrow> shape0 u = shape0 X"
  by (auto simp: demo_collab_def)

lemma demo_data_pipeline_returns:
  "\<exists>m'. snd (data_pipeline (demo_collab demo_test reg st) (demo_model algos)) = Inr m'"
  "\<exists>m'. snd (data_pipeline_alpha (demo_collab demo_test reg st) (demo_model algos)) = Inr m'"
  by (simp_all add: data_pipeline_def data_pipeline_alpha_def run_simps demo_collab_def
      demo_model_def demo_specs_def demo_shapes np_array_split_def split: prod.splits)

theorem split_point_invariant_witness:
  "split_points (fst (data_pipeline (demo_collab demo_test Map.empty Map.empty) (demo_model [])))
     = [2] \<and>
   length (snapshots (fst (data_pipeline (demo_collab demo_test Map.empty Map.empty) (demo_model []))))
     = 3 \<and>
   list_all (\<lambda>(tr, te). shape0 tr = 2 \<and> shape0 tr + shape0 te = 3)
     (snapshots (fst (data_pipeline (demo_collab demo_test Map.empty Map.empty) (demo_model [])))) \<and>
   split_points (fst (data_pipeline_alpha (demo_collab demo_test Map.empty Map.empty) (demo_model [])))
     = [2] \<and>
   list_all (\<lambda>(tr, te). shape0 tr = 2 \<and> shape0 tr + shape0 te = 3)
     (snapshots (fst (data_pipeline_alpha (demo_collab demo_test Map.empty Map.empty) (demo_model []))))"
  using split_point_invariant [OF demo_row_preserving demo_get_train demo_get_test demo_drop demo_drop,
      of demo_test Map.empty Map.empty "[]"]
    demo_data_pipeline_returns [of Map.empty Map.empty "[]"]
  by (auto simp: demo_shapes)

section \<open>Which function produced which event\<close>

lemma data_pipeline_events:
  "list_all data_event (fst (data_pipeline C m))"
  "list_all data_event (fst (data_pipeline_alpha C m))"
  by (simp_all add: data_pipeline_def data_pipeline_alpha_def run_simps
      split: sum.splits prod.splits)

lemma column1_events [simp]: "fst (column1 a) = []"
  by (simp add: column1_def)

lemma score_with_model_events:
  "list_all scoring_event (fst (score_with_model C m))"
  by (simp add: score_with_model_def run_simps split: sum.splits)

lemma score_with_model_no_store:
  assumes "persisted C (directory (specs m)) = None"
  shows "score_with_model C m =
           ([Info ''SCORING'' [], LoadModelObject (directory (specs m))],
            Inl (ExternalError (directory (specs m))))"
  using assms
  by (simp add: score_with_model_def load_model_object_def seq_def info_def call_def Let_def)

lemma score_with_model_loaded:
  assumes "persisted C (directory (specs m)) = Some p"
  shows "take 3 (fst (score_with_model C m)) =
           [Info ''SCORING'' [], LoadModelObject (directory (specs m)), Predict p (X_test m)]"
    and "(PredictProba p (X_test m) \<in> set (fst (score_with_model C m))) =
           (model_type (specs m) = classification \<and> (\<exists>ps. predict C p (X_test m) = Inr ps))"
    and "list_all (\<lambda>ev. is_predict ev \<longrightarrow> ev = Predict p (X_test m) \<or> ev = PredictProba p (X_test m))
           (fst (score_with_model C m))"
  using assms
  by (auto simp add: score_with_model_def load_model_object_def run_simps split: sum.splits)

text \<open>
  C7. When nothing is persisted under the configured directory the scoring path ends
  with the exception of the load, and its run is the opening log line and the load
  alone: no prediction was attempted. When a predictor is persisted there, the first
  collaborator call after the load is \<^verbatim>\<open>predict\<close> of that predictor on the current
  test features; \<^verbatim>\<open>predict_proba\<close> on them is called exactly when the model type is
  classification (and \<^verbatim>\<open>predict\<close> returned); no prediction is made with anything
  else; and in every case the run holds only events of the scoring path: no fit, no
  metric, nothing saved.
\<close>

theorem scoring_path:
  "(persisted C (directory (specs m)) = None \<longrightarrow>
      score_with_model C m =
        ([Info ''SCORING'' [], LoadModelObject (directory (specs m))],
         Inl (ExternalError (directory (specs m))))) \<and>
   (\<forall>p. persisted C (directory (specs m)) = Some p \<longrightarrow>
      take 3 (fst (score_with_model C m)) =
        [Info ''SCORING'' [], LoadModelObject (directory (specs m)), Predict p (X_test m)] \<and>
      (PredictProba p (X_test m) \<in> set (fst (score_with_model C m))) =
        (model_type (specs m) = classification \<and> (\<exists>ps. predict C p (X_test m) = Inr ps)) \<and>
      list_all (\<lambda>ev. is_predict ev \<longrightarrow> ev = Predict p (X_test m) \<or> ev = PredictProba p (X_test m))
        (fst (score_with_model C m))) \<and>
   list_all scoring_event (fst (score_with_model C m))"
  using score_with_model_no_store [of C m] score_with_model_loaded [of C m]
    score_with_model_events [of C m]
  by blast

lemma demo_directory: "directory (specs (demo_model algos)) = ''run''"
  by (simp add: demo_model_def demo_specs_def)

lemma demo_persisted: "persisted (demo_collab t reg st) = st"
  by (simp add: demo_collab_def)

theorem scoring_path_witness:
  "score_with_model (demo_collab demo_test Map.empty Map.empty) (demo_model []) =
     ([Info ''SCORING'' [], LoadModelObject ''run''], Inl (ExternalError ''run'')) \<and>
   take 3 (fst (score_with_model (demo_collab demo_test Map.empty [''run'' \<mapsto> 1]) (demo_model []))) =
     [Info ''SCORING'' [], LoadModelObject ''run'', Predict 1 demo_test] \<and>
   PredictProba 1 demo_test
     \<in> set (fst (score_with_model (demo_collab demo_test Map.empty [''run'' \<mapsto> 1]) (demo_model [])))"
  using scoring_path [of "demo_collab demo_test Map.empty Map.empty" "demo_model []"]
    scoring_path [of "demo_collab demo_test Map.empty [''run'' \<mapsto> 1]" "demo_model []"]
  by (simp add: demo_directory demo_persisted)
    (simp add: demo_model_def demo_specs_def demo_collab_def)

section \<open>The loop of the model pipeline\<close>

lemma loop_body_alpha_eq:
  "loop_body_alpha C cal fs gs rf ests algo s = loop_body C cal (fs \<and> \<not> gs) gs rf ests algo s"
  by (simp add: loop_body_alpha_def loop_body_def)

lemma algo_loop_alpha_eq:
  "algo_loop_alpha C cal fs gs rf ests algos s = algo_loop C cal (fs \<and> \<not> gs) gs rf ests algos s"
  by (induction algos arbitrary: s) (simp_all add: loop_body_alpha_eq)

lemma read_local_simps [simp]:
  "read_local n None = raise (UnboundLocalError n)"
  "read_local n (Some x) = ret x"
  by (simp_all add: read_local_def)

lemma fst_read_local [simp]: "fst (read_local n v) = []"
  by (simp add: read_local_def split: option.splits)

lemma list_all_seq:
  "list_all P (fst a) \<Longrightarrow> (\<And>x. list_all P (fst (f x))) \<Longrightarrow> list_all P (fst (seq a f))"
  by (simp add: fst_seq split: sum.splits)

lemma loop_body_events:
  "list_all loop_or_later (fst (loop_body C cal fs gs rf ests algo s))"
  by (cases s)
    (auto simp add: loop_body_def intro!: list_all_seq split: option.splits)

lemma algo_loop_events:
  "list_all loop_or_later (fst (algo_loop C cal fs gs rf ests algos s))"
  by (induction algos arbitrary: s)
    (auto intro!: list_all_seq simp: loop_body_events)

lemma after_loop_events:
  "list_all loop_or_later (fst (after_loop C labels m))"
  by (auto simp add: after_loop_def intro!: list_all_seq)

lemma list_all_disjI2: "list_all Q xs \<Longrightarrow> list_all (\<lambda>x. P x \<or> Q x) xs"
  by (simp add: list_all_iff)

lemma model_pipeline_events:
  "list_all (\<lambda>ev. prelude_event ev \<or> loop_or_later ev) (fst (model_pipeline C m))"
  "list_all (\<lambda>ev. prelude_event ev \<or> loop_or_later ev) (fst (model_pipeline_alpha C m))"
  by (auto simp add: model_pipeline_def model_pipeline_alpha_def Let_def algo_loop_alpha_eq
      list_all_disjI2 [OF algo_loop_events] list_all_disjI2 [OF after_loop_events]
      intro!: list_all_seq)

section \<open>The scorer check of the model pipeline\<close>

lemma unknown_scorer_main:
  assumes "scorer (specs m) \<notin> set (scorers C)"
  shows "snd (model_pipeline C m) = Inl (KeyError ''Scorer function %s not found'' [scorer (specs m)])
           \<or> (\<exists>d. snd (model_pipeline C m) = Inl (ExternalError d))"
    and "list_all prelude_event (fst (model_pipeline C m))"
    and "(\<forall>m1 d. shuffle_data C m1 \<noteq> Inl d) \<Longrightarrow> (\<forall>m1 d. sample_data C m1 \<noteq> Inl d) \<Longrightarrow>
         (\<forall>m1 d. get_sample_weights C m1 \<noteq> Inl d) \<Longrightarrow> (\<forall>m1 d. get_estimators C m1 \<noteq> Inl d) \<Longrightarrow>
         snd (model_pipeline C m) = Inl (KeyError ''Scorer function %s not found'' [scorer (specs m)])"
  using assms
  by (simp_all add: model_pipeline_def run_simps split: sum.splits)

lemma unknown_scorer_alpha:
  assumes "scorer (specs m) \<notin> set (scorers C)"
  shows "snd (model_pipeline_alpha C m) = Inl (KeyError ''Scorer function %s not found'' [scorer (specs m)])
           \<or> (\<exists>d. snd (model_pipeline_alpha C m) = Inl (ExternalError d))"
    and "list_all prelude_event (fst (model_pipeline_alpha C m))"
    and "(\<forall>m1 d. shuffle_data C m1 \<noteq> Inl d) \<Longrightarrow> (\<forall>m1 d. sample_data C m1 \<noteq> Inl d) \<Longrightarrow>
         (\<forall>m1 d. get_sample_weights C m1 \<noteq> Inl d) \<Longrightarrow> (\<forall>m1 d. get_estimators C m1 \<noteq> Inl d) \<Longrightarrow>
         snd (model_pipeline_alpha C m) = Inl (KeyError ''Scorer function %s not found'' [scorer (specs m)])"
  using assms
  by (simp_all add: model_pipeline_alpha_def run_simps split: sum.splits)

lemma prelude_not_later: "prelude_event ev \<Longrightarrow> \<not> loop_or_later ev"
  by (cases ev) auto

text \<open>
  C8. When the configured scorer name is not a key of the scorer registry, the model
  pipeline ends with an exception: the \<^verbatim>\<open>KeyError\<close> of its check, or the exception of
  a collaborator called before the check (shuffle, sampling, sample weights, the
  estimator registry); it is the \<^verbatim>\<open>KeyError\<close> whenever those collaborators return.
  The run holds only events of the statements before the loop: the loop was not
  entered, nothing was selected, fitted, predicted, blended, measured, plotted or
  saved. The same holds in both files.
\<close>

theorem unknown_scorer_aborts:
  assumes "scorer (specs m) \<notin> set (scorers C)"
  shows "(snd (model_pipeline C m)
            = Inl (KeyError ''Scorer function %s not found'' [scorer (specs m)]) \<or>
          (\<exists>d. snd (model_pipeline C m) = Inl (ExternalError d))) \<and>
         list_all prelude_event (fst (model_pipeline C m)) \<and>
         list_all (\<lambda>ev. \<not> loop_or_later ev) (fst (model_pipeline C m)) \<and>
         ((\<forall>m1 d. shuffle_data C m1 \<noteq> Inl d) \<and> (\<forall>m1 d. sample_data C m1 \<noteq> Inl d) \<and>
          (\<forall>m1 d. get_sample_weights C m1 \<noteq> Inl d) \<and> (\<forall>m1 d. get_estimators C m1 \<noteq> Inl d) \<longrightarrow>
            snd (model_pipeline C m)
              = Inl (KeyError ''Scorer function %s not found'' [scorer (specs m)])) \<and>
         (snd (model_pipeline_alpha C m)
            = Inl (KeyError ''Scorer function %s not found'' [scorer (specs m)]) \<or>
          (\<exists>d. snd (model_pipeline_alpha C m) = Inl (ExternalError d))) \<and>
         list_all prelude_event (fst (model_pipeline_alpha C m)) \<and>
         list_all (\<lambda>ev. \<not> loop_or_later ev) (fst (model_pipeline_alpha C m)) \<and>
         ((\<forall>m1 d. shuffle_data C m1 \<noteq> Inl d) \<and> (\<forall>m1 d. sample_data C m1 \<noteq> Inl d) \<and>
          (\<forall>m1 d. get_sample_weights C m1 \<noteq> Inl d) \<and> (\<forall>m1 d. get_estimators C m1 \<noteq> Inl d) \<longrightarrow>
            snd (model_pipeline_alpha C m)
              = Inl (KeyError ''Scorer function %s not found'' [scorer (specs m)]))"
proof -
  have "list_all (\<lambda>ev. \<not> loop_or_later ev) (fst (model_pipeline C m))"
    using unknown_scorer_main(2) [OF assms] prelude_not_later
    by (auto simp: list_all_iff)
  moreover have "list_all (\<lambda>ev. \<not> loop_or_later ev) (fst (model_pipeline_alpha C m))"
    using unknown_scorer_alpha(2) [OF assms] prelude_not_later
    by (auto simp: list_all_iff)
  ultimately show ?thesis
    using unknown_scorer_main [OF assms] unknown_scorer_alpha [OF assms]
    by blast
qed

lemma demo_prelude_total:
  "\<forall>m1 d. shuffle_data (demo_collab t reg st) m1 \<noteq> Inl d"
  "\<forall>m1 d. sample_data (demo_collab t reg st) m1 \<noteq> Inl d"
  "\<forall>m1 d. get_sample_weights (demo_collab t reg st) m1 \<noteq> Inl d"
  "\<forall>m1 d. get_estimators (demo_collab t reg st) m1 \<noteq> Inl d"
  by (simp_all add: demo_collab_def)

lemma demo_unknown_scorer:
  "scorer (specs demo_unknown_scorer_model) = ''f1''"
  "''f1'' \<notin> set (scorers (demo_collab t reg st))"
  by (simp_all add: demo_unknown_scorer_model_def demo_collab_def)

theorem unknown_scorer_aborts_witness:
  "snd (model_pipeline (demo_collab demo_test [''A'' \<mapsto> est_cv] Map.empty) demo_unknown_scorer_model)
     = Inl (KeyError ''Scorer function %s not found'' [''f1'']) \<and>
   list_all (\<lambda>ev. \<not> loop_or_later ev)
     (fst (model_pipeline (demo_collab demo_test [''A'' \<mapsto> est_cv] Map.empty)
        demo_unknown_scorer_model)) \<and>
   snd (model_pipeline_alpha (demo_collab demo_test [''A'' \<mapsto> est_cv] Map.empty)
          demo_unknown_scorer_model)
     = Inl (KeyError ''Scorer function %s not found'' [''f1''])"
  using unknown_scorer_aborts
    [of demo_unknown_scorer_model "demo_collab demo_test [''A'' \<mapsto> est_cv] Map.empty"]
    demo_prelude_total [of demo_test "[''A'' \<mapsto> est_cv]" Map.empty]
    demo_unknown_scorer
  by simp

section \<open>The branch of the main pipeline\<close>

lemma event_classes_disjoint:
  "data_event ev \<Longrightarrow> \<not> scoring_event ev \<and> \<not> prelude_event ev \<and> \<not> loop_or_later ev"
  "scoring_event ev \<Longrightarrow> \<not> prelude_event ev \<and> \<not> loop_or_later ev"
  "prelude_event ev \<Longrightarrow> \<not> scoring_event ev"
  "loop_or_later ev \<Longrightarrow> \<not> scoring_event ev"
  by (cases ev; auto)+

lemma main_pipeline_trace:
  "fst (main_pipeline C m) =
     fst (data_pipeline C m) @
       (case snd (data_pipeline C m) of
          Inl e \<Rightarrow> []
        | Inr m' \<Rightarrow> if scoring_spec (specs m) then fst (score_with_model C m')
                    else fst (model_pipeline C m'))"
  "fst (main_pipeline_alpha C m) =
     fst (data_pipeline_alpha C m) @
       (case snd (data_pipeline_alpha C m) of
          Inl e \<Rightarrow> []
        | Inr m' \<Rightarrow> if scoring_mode (specs m) then fst (score_with_model C m')
                    else fst (model_pipeline_alpha C m'))"
  by (simp_all add: main_pipeline_def main_pipeline_alpha_def run_simps split: sum.splits)

lemma main_pipeline_result:
  "snd (main_pipeline C m) =
     (case snd (data_pipeline C m) of
        Inl e \<Rightarrow> Inl e
      | Inr m' \<Rightarrow>
          if scoring_spec (specs m) then
            (case snd (score_with_model C m') of Inl e \<Rightarrow> Inl e | Inr u \<Rightarrow> Inr m')
          else snd (model_pipeline C m'))"
  "snd (main_pipeline_alpha C m) =
     (case snd (data_pipeline_alpha C m) of
        Inl e \<Rightarrow> Inl e
      | Inr m' \<Rightarrow>
          if scoring_mode (specs m) then
            (case snd (score_with_model C m') of Inl e \<Rightarrow> Inl e | Inr u \<Rightarrow> Inr m')
          else snd (model_pipeline_alpha C m'))"
  by (simp_all add: main_pipeline_def main_pipeline_alpha_def run_simps split: sum.splits)

lemma pipeline_banners:
  "\<exists>rest. fst (data_pipeline C m) = Info ''DATA PIPELINE'' [] # rest"
  "\<exists>rest. fst (data_pipeline_alpha C m) = Info ''DATA PIPELINE'' [] # rest"
  "\<exists>rest. fst (score_with_model C m) = Info ''SCORING'' [] # rest"
  "\<exists>rest. fst (model_pipeline C m) = Info ''MODEL PIPELINE'' [] # rest"
  "\<exists>rest. fst (model_pipeline_alpha C m) = Info ''MODEL PIPELINE'' [] # rest"
  by (simp_all add: data_pipeline_def data_pipeline_alpha_def score_with_model_def
      model_pipeline_def model_pipeline_alpha_def fst_seq)

lemma banner_classes [simp]:
  "\<not> data_event (Info ''SCORING'' [])" "\<not> data_event (Info ''MODEL PIPELINE'' [])"
  "\<not> scoring_event (Info ''MODEL PIPELINE'' [])"
  "\<not> prelude_event (Info ''SCORING'' [])" "\<not> loop_or_later (Info ''SCORING'' [])"
  by simp_all

lemma main_pipeline_branch_main:
  shows "\<exists>rest. fst (main_pipeline C m) = Info ''DATA PIPELINE'' [] # rest"
    and "snd (data_pipeline C m) = Inr m' \<Longrightarrow>
           (Info ''SCORING'' [] \<in> set (fst (main_pipeline C m))) = scoring_spec (specs m) \<and>
           (Info ''MODEL PIPELINE'' [] \<in> set (fst (main_pipeline C m))) = (\<not> scoring_spec (specs m))"
    and "scoring_spec (specs m) \<Longrightarrow>
           list_all (\<lambda>ev. \<not> prelude_event ev \<and> \<not> loop_or_later ev) (fst (main_pipeline C m))"
    and "\<not> scoring_spec (specs m) \<Longrightarrow>
           list_all (\<lambda>ev. \<not> scoring_event ev) (fst (main_pipeline C m))"
proof -
  show "\<exists>rest. fst (main_pipeline C m) = Info ''DATA PIPELINE'' [] # rest"
    using pipeline_banners(1) [of C m] by (auto simp: main_pipeline_trace)
  have d: "\<forall>ev \<in> set (fst (data_pipeline C m)). data_event ev"
    using data_pipeline_events(1) [of C m] by (simp add: list_all_iff)
  have sc: "\<forall>x. \<forall>ev \<in> set (fst (score_with_model C x)). scoring_event ev"
    using score_with_model_events [of C] by (simp add: list_all_iff)
  have mp: "\<forall>x. \<forall>ev \<in> set (fst (model_pipeline C x)). prelude_event ev \<or> loop_or_later ev"
    using model_pipeline_events(1) [of C] by (simp add: list_all_iff)
  show "(Info ''SCORING'' [] \<in> set (fst (main_pipeline C m))) = scoring_spec (specs m) \<and>
        (Info ''MODEL PIPELINE'' [] \<in> set (fst (main_pipeline C m))) = (\<not> scoring_spec (specs m))"
    if "snd (data_pipeline C m) = Inr m'"
  proof -
    have n1: "Info ''SCORING'' [] \<notin> set (fst (data_pipeline C m))"
      "Info ''MODEL PIPELINE'' [] \<notin> set (fst (data_pipeline C m))"
      using d banner_classes by blast+
    have n2: "Info ''MODEL PIPELINE'' [] \<notin> set (fst (score_with_model C m'))"
      using sc banner_classes by blast
    have n3: "Info ''SCORING'' [] \<notin> set (fst (model_pipeline C m'))"
      using mp banner_classes by blast
    have y1: "Info ''SCORING'' [] \<in> set (fst (score_with_model C m'))"
      using pipeline_banners(3) [of C m'] by auto
    have y2: "Info ''MODEL PIPELINE'' [] \<in> set (fst (model_pipeline C m'))"
      using pipeline_banners(4) [of C m'] by auto
    show ?thesis
      using that n1 n2 n3 y1 y2 by (simp add: main_pipeline_trace)
  qed
  show "list_all (\<lambda>ev. \<not> prelude_event ev \<and> \<not> loop_or_later ev) (fst (main_pipeline C m))"
    if "scoring_spec (specs m)"
    using that d sc event_classes_disjoint
    by (simp add: main_pipeline_trace list_all_iff split: sum.splits) blast
  show "list_all (\<lambda>ev. \<not> scoring_event ev) (fst (main_pipeline C m))"
    if "\<not> scoring_spec (specs m)"
    using that d mp event_classes_disjoint
    by (simp add: main_pipeline_trace list_all_iff split: sum.splits) blast
qed

lemma main_pipeline_branch_alpha:
  shows "\<exists>rest. fst (main_pipeline_alpha C m) = Info ''DATA PIPELINE'' [] # rest"
    and "snd (data_pipeline_alpha C m) = Inr m' \<Longrightarrow>
           (Info ''SCORING'' [] \<in> set (fst (main_pipeline_alpha C m))) = scoring_mode (specs m) \<and>
           (Info ''MODEL PIPELINE'' [] \<in> set (fst (main_pipeline_alpha C m))) = (\<not> scoring_mode (specs m))"
    and "scoring_mode (specs m) \<Longrightarrow>
           list_all (\<lambda>ev. \<not> prelude_event ev \<and> \<not> loop_or_later ev) (fst (main_pipeline_alpha C m))"
    and "\<not> scoring_mode (specs m) \<Longrightarrow>
           list_all (\<lambda>ev. \<not> scoring_event ev) (fst (main_pipeline_alpha C m))"
proof -
  show "\<exists>rest. fst (main_pipeline_alpha C m) = Info ''DATA PIPELINE'' [] # rest"
    using pipeline_banners(2) [of C m] by (auto simp: main_pipeline_trace)
  have d: "\<forall>ev \<in> set (fst (data_pipeline_alpha C m)). data_event ev"
    using data_pipeline_events(2) [of C m] by (simp add: list_all_iff)
  have sc: "\<forall>x. \<forall>ev \<in> set (fst (score_with_model C x)). scoring_event ev"
    using score_with_model_events [of C] by (simp add: list_all_iff)
  have mp: "\<forall>x. \<forall>ev \<in> set (fst (model_pipeline_alpha C x)). prelude_event ev \<or> loop_or_later ev"
    using model_pipeline_events(2) [of C] by (simp add: list_all_iff)
  show "(Info ''SCORING'' [] \<in> set (fst (main_pipeline_alpha C m))) = scoring_mode (specs m) \<and>
        (Info ''MODEL PIPELINE'' [] \<in> set (fst (main_pipeline_alpha C m))) = (\<not> scoring_mode (specs m))"
    if "snd (data_pipeline_alpha C m) = Inr m'"
  proof -
    have n1: "Info ''SCORING'' [] \<notin> set (fst (data_pipeline_alpha C m))"
      "Info ''MODEL PIPELINE'' [] \<notin> set (fst (data_pipeline_alpha C m))"
      using d banner_classes by blast+
    have n2: "Info ''MODEL PIPELINE'' [] \<notin> set (fst (score_with_model C m'))"
      using sc banner_classes by blast
    have n3: "Info ''SCORING'' [] \<notin> set (fst (model_pipeline_alpha C m'))"
      using mp banner_classes by blast
    have y1: "Info ''SCORING'' [] \<in> set (fst (score_with_model C m'))"
      using pipeline_banners(3) [of C m'] by auto
    have y2: "Info ''MODEL PIPELINE'' [] \<in> set (fst (model_pipeline_alpha C m'))"
      using pipeline_banners(5) [of C m'] by auto
    show ?thesis
      using that n1 n2 n3 y1 y2 by (simp add: main_pipeline_trace)
  qed
  show "list_all (\<lambda>ev. \<not> prelude_event ev \<and> \<not> loop_or_later ev) (fst (main_pipeline_alpha C m))"
    if "scoring_mode (specs m)"
    using that d sc event_classes_disjoint
    by (simp add: main_pipeline_trace list_all_iff split: sum.splits) blast
  show "list_all (\<lambda>ev. \<not> scoring_event ev) (fst (main_pipeline_alpha C m))"
    if "\<not> scoring_mode (specs m)"
    using that d mp event_classes_disjoint
    by (simp add: main_pipeline_trace list_all_iff split: sum.splits) blast
qed

text \<open>
  C9. The run of the main pipeline starts with the data pipeline and is the run of the
  data pipeline followed, when the data pipeline returned, by the run of the scoring
  path if the scoring flag is set and by the run of the model pipeline otherwise. So,
  once the data pipeline has returned, the scoring path was entered exactly when the
  flag is set and the model pipeline exactly when it is not; with the flag set no
  event of the model pipeline occurs, and without it no event of the scoring path.
  (When the data pipeline raises, the run ends there.) \<^verbatim>\<open>__main__.py\<close> reads the flag
  under the key \<^verbatim>\<open>'scoring'\<close>, \<^verbatim>\<open>alpha.py\<close> under \<^verbatim>\<open>'scoring_mode'\<close>.
\<close>

theorem main_pipeline_branch:
  "(\<exists>rest. fst (main_pipeline C m) = Info ''DATA PIPELINE'' [] # rest) \<and>
   fst (main_pipeline C m) =
     fst (data_pipeline C m) @
       (case snd (data_pipeline C m) of
          Inl e \<Rightarrow> []
        | Inr m' \<Rightarrow> if scoring_spec (specs m) then fst (score_with_model C m')
                    else fst (model_pipeline C m')) \<and>
   (\<forall>m'. snd (data_pipeline C m) = Inr m' \<longrightarrow>
      (Info ''SCORING'' [] \<in> set (fst (main_pipeline C m))) = scoring_spec (specs m) \<and>
      (Info ''MODEL PIPELINE'' [] \<in> set (fst (main_pipeline C m))) = (\<not> scoring_spec (specs m))) \<and>
   (scoring_spec (specs m) \<longrightarrow>
      list_all (\<lambda>ev. \<not> prelude_event ev \<and> \<not> loop_or_later ev) (fst (main_pipeline C m))) \<and>
   (\<not> scoring_spec (specs m) \<longrightarrow>
      list_all (\<lambda>ev. \<not> scoring_event ev) (fst (main_pipeline C m))) \<and>
   (\<exists>rest. fst (main_pipeline_alpha C m) = Info ''DATA PIPELINE'' [] # rest) \<and>
   fst (main_pipeline_alpha C m) =
     fst (data_pipeline_alpha C m) @
       (case snd (data_pipeline_alpha C m) of
          Inl e \<Rightarrow> []
        | Inr m' \<Rightarrow> if scoring_mode (specs m) then fst (score_with_model C m')
                    else fst (model_pipeline_alpha C m')) \<and>
   (\<forall>m'. snd (data_pipeline_alpha C m) = Inr m' \<longrightarrow>
      (Info ''SCORING'' [] \<in> set (fst (main_pipeline_alpha C m))) = scoring_mode (specs m) \<and>
      (Info ''MODEL PIPELINE'' [] \<in> set (fst (main_pipeline_alpha C m)))
        = (\<not> scoring_mode (specs m))) \<and>
   (scoring_mode (specs m) \<longrightarrow>
      list_all (\<lambda>ev. \<not> prelude_event ev \<and> \<not> loop_or_later ev) (fst (main_pipeline_alpha C m))) \<and>
   (\<not> scoring_mode (specs m) \<longrightarrow>
      list_all (\<lambda>ev. \<not> scoring_event ev) (fst (main_pipeline_alpha C m)))"
  using main_pipeline_branch_main [where C = C and m = m]
    main_pipeline_branch_alpha [where C = C and m = m]
    main_pipeline_trace [where C = C and m = m]
  by blast

lemma demo_scoring_flags:
  "scoring_spec (specs demo_scoring_model)" "scoring_mode (specs demo_scoring_model)"
  "\<not> scoring_spec (specs (demo_model algos))" "\<not> scoring_mode (specs (demo_model algos))"
  by (simp_all add: demo_scoring_model_def demo_model_def demo_specs_def)

lemma demo_scoring_data:
  "snd (data_pipeline (demo_collab demo_test reg st) demo_scoring_model)
     = Inr (demo_scoring_model\<lparr>X_test := demo_engineered_test\<rparr>)"
  "snd (data_pipeline_alpha (demo_collab demo_test reg st) demo_scoring_model)
     = Inr (demo_scoring_model\<lparr>X_test := demo_engineered_test\<rparr>)"
  by (simp_all add: data_pipeline_def data_pipeline_alpha_def run_simps demo_collab_def
      demo_scoring_model_def demo_specs_def demo_engineered_test_def np_array_split_def
      pd_concat_def reindex_def drop_columns_def demo_train_def demo_test_def shape0_def shape1_def)

lemma demo_scoring_returns:
  "snd (score_with_model (demo_collab demo_test reg [''run'' \<mapsto> 1])
          (demo_scoring_model\<lparr>X_test := demo_engineered_test\<rparr>)) = Inr ()"
  by (simp add: score_with_model_def run_simps demo_collab_def load_model_object_def
      demo_scoring_model_def demo_specs_def demo_engineered_test_def column1_def)

theorem main_pipeline_branch_witness:
  "Info ''SCORING'' []
     \<in> set (fst (main_pipeline (demo_collab demo_test Map.empty [''run'' \<mapsto> 1]) demo_scoring_model)) \<and>
   Info ''MODEL PIPELINE'' []
     \<notin> set (fst (main_pipeline (demo_collab demo_test Map.empty [''run'' \<mapsto> 1]) demo_scoring_model)) \<and>
   Info ''MODEL PIPELINE'' []
     \<in> set (fst (main_pipeline (demo_collab demo_test [''A'' \<mapsto> est_cv] Map.empty) (demo_model [''A'']))) \<and>
   Info ''SCORING'' []
     \<notin> set (fst (main_pipeline (demo_collab demo_test [''A'' \<mapsto> est_cv] Map.empty) (demo_model [''A''])))"
proof -
  have a: "\<forall>m'. snd (data_pipeline (demo_collab demo_test Map.empty [''run'' \<mapsto> 1])
                 demo_scoring_model) = Inr m' \<longrightarrow>
      (Info ''SCORING'' [] \<in> set (fst (main_pipeline
          (demo_collab demo_test Map.empty [''run'' \<mapsto> 1]) demo_scoring_model)))
        = scoring_spec (specs demo_scoring_model) \<and>
      (Info ''MODEL PIPELINE'' [] \<in> set (fst (main_pipeline
          (demo_collab demo_test Map.empty [''run'' \<mapsto> 1]) demo_scoring_model)))
        = (\<not> scoring_spec (specs demo_scoring_model))"
    using main_pipeline_branch
      [of "demo_collab demo_test Map.empty [''run'' \<mapsto> 1]" demo_scoring_model]
    by (elim conjE)
  have b: "\<forall>m'. snd (data_pipeline (demo_collab demo_test [''A'' \<mapsto> est_cv] Map.empty)
                 (demo_model [''A''])) = Inr m' \<longrightarrow>
      (Info ''SCORING'' [] \<in> set (fst (main_pipeline
          (demo_collab demo_test [''A'' \<mapsto> est_cv] Map.empty) (demo_model [''A'']))))
        = scoring_spec (specs (demo_model [''A''])) \<and>
      (Info ''MODEL PIPELINE'' [] \<in> set (fst (main_pipeline
          (demo_collab demo_test [''A'' \<mapsto> est_cv] Map.empty) (demo_model [''A'']))))
        = (\<not> scoring_spec (specs (demo_model [''A''])))"
    using main_pipeline_branch
      [of "demo_collab demo_test [''A'' \<mapsto> est_cv] Map.empty" "demo_model [''A'']"]
    by (elim conjE)
  show ?thesis
    using a b demo_scoring_data(1) [of Map.empty "[''run'' \<mapsto> 1]"]
      demo_data_pipeline_returns(1) [of "[''A'' \<mapsto> est_cv]" Map.empty "[''A'']"]
      demo_scoring_flags(1) demo_scoring_flags(3) [of "[''A'']"]
    by blast
qed

text \<open>
  C10. In scoring mode, when the data pipeline returned a model and the scoring path
  returned, the main pipeline returns exactly the model of the data pipeline: the
  scoring path hands nothing back. When the scoring path raises, the main pipeline
  raises the same exception. The same holds in both files.
\<close>

theorem scoring_mode_returns_data_model:
  "(scoring_spec (specs m) \<and> snd (data_pipeline C m) = Inr m' \<and>
      snd (score_with_model C m') = Inr u \<longrightarrow> snd (main_pipeline C m) = Inr m') \<and>
   (scoring_spec (specs m) \<and> snd (data_pipeline C m) = Inr m' \<and>
      snd (score_with_model C m') = Inl e \<longrightarrow> snd (main_pipeline C m) = Inl e) \<and>
   (scoring_mode (specs m) \<and> snd (data_pipeline_alpha C m) = Inr m' \<and>
      snd (score_with_model C m') = Inr u \<longrightarrow> snd (main_pipeline_alpha C m) = Inr m') \<and>
   (scoring_mode (specs m) \<and> snd (data_pipeline_alpha C m) = Inr m' \<and>
      snd (score_with_model C m') = Inl e \<longrightarrow> snd (main_pipeline_alpha C m) = Inl e)"
  by (simp add: main_pipeline_result)

theorem scoring_mode_returns_data_model_witness:
  "snd (main_pipeline (demo_collab demo_test Map.empty [''run'' \<mapsto> 1]) demo_scoring_model)
     = Inr (demo_scoring_model\<lparr>X_test := demo_engineered_test\<rparr>) \<and>
   snd (data_pipeline (demo_collab demo_test Map.empty [''run'' \<mapsto> 1]) demo_scoring_model)
     = Inr (demo_scoring_model\<lparr>X_test := demo_engineered_test\<rparr>) \<and>
   snd (main_pipeline_alpha (demo_collab demo_test Map.empty [''run'' \<mapsto> 1]) demo_scoring_model)
     = Inr (demo_scoring_model\<lparr>X_test := demo_engineered_test\<rparr>)"
  using scoring_mode_returns_data_model
      [of demo_scoring_model "demo_collab demo_test Map.empty [''run'' \<mapsto> 1]"
          "demo_scoring_model\<lparr>X_test := demo_engineered_test\<rparr>" "()"]
    demo_scoring_data [of Map.empty "[''run'' \<mapsto> 1]"]
    demo_scoring_returns [of Map.empty]
    demo_scoring_flags(1,2)
  by simp

section \<open>Postconditions of a run\<close>

lemma post_ret: "R [] x \<Longrightarrow> post F R (ret x)"
  by (simp add: post_def ret_def)

lemma post_raise: "F [] e \<Longrightarrow> post F R (raise e)"
  by (simp add: post_def raise_def)

lemma post_info: "R [Info s as] () \<Longrightarrow> post F R (info s as)"
  by (simp add: post_def info_def)

lemma post_call:
  "(\<And>d. r = Inl d \<Longrightarrow> F [ev] (ExternalError d)) \<Longrightarrow> (\<And>x. r = Inr x \<Longrightarrow> R [ev] x) \<Longrightarrow>
     post F R (call ev r)"
  by (simp add: post_def call_def split: sum.splits)

lemma post_seq_ret: "post F R (f x) \<Longrightarrow> post F R (seq (ret x) f)"
  by simp

lemma post_seq_raise: "F [] e \<Longrightarrow> post F R (seq (raise e) f)"
  by (simp add: post_def seq_def raise_def)

lemma post_seq_info:
  "post (\<lambda>evs e. F (Info s as # evs) e) (\<lambda>evs y. R (Info s as # evs) y) (f ()) \<Longrightarrow>
     post F R (seq (info s as) f)"
  by (simp add: post_def seq_def info_def split: sum.splits)

lemma post_seq_call:
  "(\<And>d. r = Inl d \<Longrightarrow> F [ev] (ExternalError d)) \<Longrightarrow>
   (\<And>x. r = Inr x \<Longrightarrow> post (\<lambda>evs e. F (ev # evs) e) (\<lambda>evs y. R (ev # evs) y) (f x)) \<Longrightarrow>
     post F R (seq (call ev r) f)"
  by (cases r) (auto simp add: post_def seq_def call_def split: sum.splits)

lemma post_seq_read_local:
  "(v = None \<Longrightarrow> F [] (UnboundLocalError n)) \<Longrightarrow> (\<And>x. v = Some x \<Longrightarrow> post F R (f x)) \<Longrightarrow>
     post F R (seq (read_local n v) f)"
  by (cases v) (simp_all add: post_def seq_def read_local_def raise_def ret_def)

lemma post_seq_if:
  "(c \<Longrightarrow> post F R (seq a f)) \<Longrightarrow> (\<not> c \<Longrightarrow> post F R (seq b f)) \<Longrightarrow>
     post F R (seq (if c then a else b) f)"
  by simp

lemma post_if:
  "(c \<Longrightarrow> post F R a) \<Longrightarrow> (\<not> c \<Longrightarrow> post F R b) \<Longrightarrow> post F R (if c then a else b)"
  by simp

lemma post_seq_case_option:
  "(v = None \<Longrightarrow> post F R (seq a f)) \<Longrightarrow> (\<And>x. v = Some x \<Longrightarrow> post F R (seq (b x) f)) \<Longrightarrow>
     post F R (seq (case v of None \<Rightarrow> a | Some x \<Rightarrow> b x) f)"
  by (cases v) simp_all

lemma seq_assoc: "seq (seq a g) f = seq a (\<lambda>x. seq (g x) f)"
  by (simp add: seq_def split: sum.splits)

lemma post_seq_seq:
  "post F R (seq a (\<lambda>x. seq (g x) f)) \<Longrightarrow> post F R (seq (seq a g) f)"
  by (simp add: seq_assoc)

lemmas post_intros = post_seq_ret post_seq_raise post_seq_info post_seq_call post_seq_read_local
  post_seq_if post_seq_case_option post_seq_seq post_if post_ret post_raise post_info post_call

lemma post_fst_snd:
  "post F R r \<Longrightarrow> (case snd r of Inl e \<Rightarrow> F (fst r) e | Inr x \<Rightarrow> R (fst r) x)"
  by (simp add: post_def)

lemma post_mono:
  "post F R a \<Longrightarrow> (\<And>evs e. F evs e \<Longrightarrow> F' evs e) \<Longrightarrow> (\<And>evs x. R evs x \<Longrightarrow> R' evs x) \<Longrightarrow>
     post F' R' a"
  by (simp add: post_def split: sum.splits)

lemma post_seq_gen:
  "post F1 Q a \<Longrightarrow>
   (\<And>evs e. F1 evs e \<Longrightarrow> F evs e) \<Longrightarrow>
   (\<And>evs x. Q evs x \<Longrightarrow> post (\<lambda>evs' e. F (evs @ evs') e) (\<lambda>evs' y. R (evs @ evs') y) (f x)) \<Longrightarrow>
     post F R (seq a f)"
proof (cases "snd a")
  case (Inl e)
  assume "post F1 Q a" and "\<And>evs e. F1 evs e \<Longrightarrow> F evs e"
  then show ?thesis using Inl by (simp add: post_def seq_def)
next
  case (Inr x)
  assume "post F1 Q a"
    and "\<And>evs x. Q evs x \<Longrightarrow>
           post (\<lambda>evs' e. F (evs @ evs') e) (\<lambda>evs' y. R (evs @ evs') y) (f x)"
  then have "post (\<lambda>evs' e. F (fst a @ evs') e) (\<lambda>evs' y. R (fst a @ evs') y) (f x)"
    using Inr by (simp add: post_def)
  then show ?thesis using Inr by (simp add: post_def seq_def split: sum.splits)
qed

lemma post_fails:
  "post F (\<lambda>evs x. False) r \<Longrightarrow> \<exists>e. snd r = Inl e \<and> F (fst r) e"
  by (cases "snd r") (simp_all add: post_def)

lemma post_returns:
  "post (\<lambda>evs e. False) R r \<Longrightarrow> \<exists>x. snd r = Inr x \<and> R (fst r) x"
  by (cases "snd r") (simp_all add: post_def)

lemma post_always:
  "post (\<lambda>evs e. P evs) (\<lambda>evs x. P evs) r \<Longrightarrow> P (fst r)"
  by (cases "snd r") (simp_all add: post_def)

section \<open>The blend\<close>

lemma artifact_algos_simps [simp]:
  "artifact_algos C [] = []"
  "artifact_algos C (ev # evs) =
     (case produced_algo C ev of None \<Rightarrow> artifact_algos C evs | Some a \<Rightarrow> a # artifact_algos C evs)"
  "artifact_algos C (evs @ evs') = artifact_algos C evs @ artifact_algos C evs'"
  by (simp_all add: artifact_algos_def map_filter_append split: option.splits)

lemma keeps_algolistD:
  assumes "keeps_algolist C"
  shows "shuffle_data C m = Inr m' \<Longrightarrow> algolist m' = algolist m"
    and "sample_data C m = Inr m' \<Longrightarrow> algolist m' = algolist m"
    and "get_sample_weights C m = Inr m' \<Longrightarrow> algolist m' = algolist m"
    and "select_features C m = Inr m' \<Longrightarrow> algolist m' = algolist m"
    and "first_fit C m a e = Inr m' \<Longrightarrow> algolist m' = algolist m"
    and "rfecv_search C m a = Inr m' \<Longrightarrow> algolist m' = algolist m"
    and "rfe_search C m a = Inr m' \<Longrightarrow> algolist m' = algolist m"
    and "hyper_grid_search C m est = Inr m' \<Longrightarrow> algolist m' = algolist m"
    and "make_predictions C m a c = Inr m' \<Longrightarrow> algolist m' = algolist m"
  using assms unfolding keeps_algolist_def by simp_all

lemma loop_body_keeps:
  assumes "keeps_algolist C"
  shows "post (\<lambda>evs e. True) (\<lambda>evs s'. algolist (snd s') = algolist (snd s))
           (loop_body C cal fs gs rf ests algo s)"
  unfolding loop_body_def
  by (cases s)
    (simp only: prod.case, intro post_intros,
      auto dest!: keeps_algolistD [OF assms])

lemma algo_loop_keeps:
  assumes "keeps_algolist C"
  shows "post (\<lambda>evs e. True) (\<lambda>evs s'. algolist (snd s') = algolist (snd s))
           (algo_loop C cal fs gs rf ests algos s)"
proof (induction algos arbitrary: s)
  case Nil
  show ?case by (simp add: post_ret)
next
  case (Cons algo rest)
  show ?case
    unfolding algo_loop.simps
  proof (rule post_seq_gen [OF loop_body_keeps [OF assms]])
    fix evs and x :: "locals \<times> ('a, 'b) model_scheme"
    assume "algolist (snd x) = algolist (snd s)"
    then show "post (\<lambda>evs' e. True) (\<lambda>evs' y. algolist (snd y) = algolist (snd s))
                 (algo_loop C cal fs gs rf ests rest x)"
      using Cons.IH [of x] by (auto elim: post_mono)
  qed simp
qed

lemma loop_body_no_blend:
  "post (\<lambda>evs e. \<not> list_ex is_blend evs) (\<lambda>evs s'. \<not> list_ex is_blend evs)
     (loop_body C cal fs gs rf ests algo s)"
  unfolding loop_body_def
  by (cases s) (simp only: prod.case, intro post_intros, simp_all)

lemma algo_loop_no_blend:
  "post (\<lambda>evs e. \<not> list_ex is_blend evs) (\<lambda>evs s'. \<not> list_ex is_blend evs)
     (algo_loop C cal fs gs rf ests algos s)"
proof (induction algos arbitrary: s)
  case Nil
  show ?case by (simp add: post_ret)
next
  case (Cons algo rest)
  show ?case
    unfolding algo_loop.simps
  proof (rule post_seq_gen [OF loop_body_no_blend])
    fix evs :: "(('a, 'b) model_scheme, 'a, 'c) event list"
      and x :: "locals \<times> ('a, 'b) model_scheme"
    assume "\<not> list_ex is_blend evs"
    then show "post (\<lambda>evs' e. \<not> list_ex is_blend (evs @ evs'))
                 (\<lambda>evs' y. \<not> list_ex is_blend (evs @ evs'))
                 (algo_loop C cal fs gs rf ests rest x)"
      using Cons.IH [of x] by (auto elim: post_mono)
  qed simp
qed

lemma post_conj:
  "post F R a \<Longrightarrow> post F' R' a \<Longrightarrow> post (\<lambda>evs e. F evs e \<and> F' evs e) (\<lambda>evs x. R evs x \<and> R' evs x) a"
  by (simp add: post_def split: sum.splits)

lemma loop_body_no_metrics:
  "post (\<lambda>evs e. \<not> list_ex is_metrics evs) (\<lambda>evs s'. \<not> list_ex is_metrics evs)
     (loop_body C cal fs gs rf ests algo s)"
  unfolding loop_body_def
  by (cases s) (simp only: prod.case, intro post_intros, simp_all)

lemma algo_loop_no_metrics:
  "post (\<lambda>evs e. \<not> list_ex is_metrics evs) (\<lambda>evs s'. \<not> list_ex is_metrics evs)
     (algo_loop C cal fs gs rf ests algos s)"
proof (induction algos arbitrary: s)
  case Nil
  show ?case by (simp add: post_ret)
next
  case (Cons algo rest)
  show ?case
    unfolding algo_loop.simps
  proof (rule post_seq_gen [OF loop_body_no_metrics])
    fix evs :: "(('a, 'b) model_scheme, 'a, 'c) event list"
      and x :: "locals \<times> ('a, 'b) model_scheme"
    assume "\<not> list_ex is_metrics evs"
    then show "post (\<lambda>evs' e. \<not> list_ex is_metrics (evs @ evs'))
                 (\<lambda>evs' y. \<not> list_ex is_metrics (evs @ evs'))
                 (algo_loop C cal fs gs rf ests rest x)"
      using Cons.IH [of x] by (auto elim: post_mono)
  qed simp
qed

lemma algo_loop_before_blend:
  assumes "keeps_algolist C"
  shows "post (\<lambda>evs e. \<not> list_ex is_blend evs \<and> \<not> list_ex is_metrics evs)
           (\<lambda>evs s'. \<not> list_ex is_blend evs \<and> \<not> list_ex is_metrics evs \<and>
              algolist (snd s') = algolist (snd s))
           (algo_loop C cal fs gs rf ests algos s)"
  using post_conj [OF algo_loop_no_blend post_conj [OF algo_loop_no_metrics algo_loop_keeps [OF assms]]]
  by (auto elim: post_mono)

lemma after_loop_blend_test:
  "post (\<lambda>evs e. list_ex is_blend evs = (2 \<le> length (algolist m)))
     (\<lambda>evs x. list_ex is_blend evs = (2 \<le> length (algolist m)) \<and> list_ex is_metrics evs)
     (after_loop C labels m)"
  unfolding after_loop_def
  by (intro post_intros) auto

lemma loop_and_after_blend_test:
  assumes k: "keeps_algolist C"
  shows "post (\<lambda>evs e. (\<not> list_ex is_blend evs \<and> \<not> list_ex is_metrics evs) \<or>
                        list_ex is_blend evs = (2 \<le> length (algolist m1)))
           (\<lambda>evs x. list_ex is_blend evs = (2 \<le> length (algolist m1)) \<and> list_ex is_metrics evs)
           (seq (algo_loop C cal fs gs rf ests algos (lv, m1))
              (\<lambda>(lv, model). after_loop C labels model))"
proof (rule post_seq_gen [OF algo_loop_before_blend [OF k]])
  fix evs :: "(('a, 'b) model_scheme, 'a, 'c) event list"
    and x :: "locals \<times> ('a, 'b) model_scheme"
  assume a: "\<not> list_ex is_blend evs \<and> \<not> list_ex is_metrics evs \<and>
             algolist (snd x) = algolist (snd (lv, m1))"
  show "post (\<lambda>evs' e. (\<not> list_ex is_blend (evs @ evs') \<and> \<not> list_ex is_metrics (evs @ evs')) \<or>
                        list_ex is_blend (evs @ evs') = (2 \<le> length (algolist m1)))
          (\<lambda>evs' y. list_ex is_blend (evs @ evs') = (2 \<le> length (algolist m1)) \<and>
                      list_ex is_metrics (evs @ evs'))
          (case x of (lv, model) \<Rightarrow> after_loop C labels model)"
    by (cases x) (simp only: prod.case, rule post_mono [OF after_loop_blend_test], insert a, auto)
qed simp

lemma model_pipeline_blend_test:
  assumes k: "keeps_algolist C"
  shows "post (\<lambda>evs e. (\<not> list_ex is_blend evs \<and> \<not> list_ex is_metrics evs) \<or>
                        list_ex is_blend evs = (2 \<le> length (algolist m)))
           (\<lambda>evs x. list_ex is_blend evs = (2 \<le> length (algolist m)) \<and> list_ex is_metrics evs)
           (model_pipeline C m)"
  unfolding model_pipeline_def Let_def
  by (intro post_intros;
      ((simp; fail) |
       (rule post_mono [OF loop_and_after_blend_test [OF k]];
         (auto dest!: keeps_algolistD [OF k]))))

lemma model_pipeline_alpha_blend_test:
  assumes k: "keeps_algolist C"
  shows "post (\<lambda>evs e. (\<not> list_ex is_blend evs \<and> \<not> list_ex is_metrics evs) \<or>
                        list_ex is_blend evs = (2 \<le> length (algolist m)))
           (\<lambda>evs x. list_ex is_blend evs = (2 \<le> length (algolist m)) \<and> list_ex is_metrics evs)
           (model_pipeline_alpha C m)"
  unfolding model_pipeline_alpha_def Let_def algo_loop_alpha_eq
  by (intro post_intros;
      ((simp; fail) |
       (rule post_mono [OF loop_and_after_blend_test [OF k]];
         (auto dest!: keeps_algolistD [OF k]))))

lemma blend_test_facts:
  fixes n :: nat
  assumes "post (\<lambda>evs e. (\<not> list_ex is_blend evs \<and> \<not> list_ex is_metrics evs) \<or>
                          list_ex is_blend evs = (2 \<le> n))
             (\<lambda>evs x. list_ex is_blend evs = (2 \<le> n) \<and> list_ex is_metrics evs) r"
  shows "(list_ex is_blend (fst r) \<longrightarrow> 2 \<le> n) \<and>
         (n = 1 \<longrightarrow> \<not> list_ex is_blend (fst r)) \<and>
         (list_ex is_metrics (fst r) \<longrightarrow> list_ex is_blend (fst r) = (2 \<le> n)) \<and>
         (\<forall>x. snd r = Inr x \<longrightarrow> list_ex is_blend (fst r) = (2 \<le> n) \<and> list_ex is_metrics (fst r))"
  using assms by (cases "snd r") (auto simp: post_def)

text \<open>
  C4, as amended. Provided the collaborators leave the algorithm list as it is: the
  blend is called only when the configured list has two or more identifiers, and with
  exactly one it is not called; in every run that gets as far as the metrics, and so in
  every run that returns, the blend has been called if and only if the configured list
  has two or more identifiers. The test is on the configured list, whether or not the
  registry resolves its identifiers. The same holds in both files.
\<close>

theorem blend_iff_two_configured:
  assumes "keeps_algolist C"
  shows "(list_ex is_blend (fst (model_pipeline C m)) \<longrightarrow> 2 \<le> length (algolist m)) \<and>
         (length (algolist m) = 1 \<longrightarrow> \<not> list_ex is_blend (fst (model_pipeline C m))) \<and>
         (list_ex is_metrics (fst (model_pipeline C m)) \<longrightarrow>
            list_ex is_blend (fst (model_pipeline C m)) = (2 \<le> length (algolist m))) \<and>
         (\<forall>m'. snd (model_pipeline C m) = Inr m' \<longrightarrow>
            list_ex is_blend (fst (model_pipeline C m)) = (2 \<le> length (algolist m)) \<and>
            list_ex is_metrics (fst (model_pipeline C m))) \<and>
         (list_ex is_blend (fst (model_pipeline_alpha C m)) \<longrightarrow> 2 \<le> length (algolist m)) \<and>
         (length (algolist m) = 1 \<longrightarrow> \<not> list_ex is_blend (fst (model_pipeline_alpha C m))) \<and>
         (list_ex is_metrics (fst (model_pipeline_alpha C m)) \<longrightarrow>
            list_ex is_blend (fst (model_pipeline_alpha C m)) = (2 \<le> length (algolist m))) \<and>
         (\<forall>m'. snd (model_pipeline_alpha C m) = Inr m' \<longrightarrow>
            list_ex is_blend (fst (model_pipeline_alpha C m)) = (2 \<le> length (algolist m)) \<and>
            list_ex is_metrics (fst (model_pipeline_alpha C m)))"
  using blend_test_facts [OF model_pipeline_blend_test [OF assms, of m]]
    blend_test_facts [OF model_pipeline_alpha_blend_test [OF assms, of m]]
  by simp

lemma demo_keeps: "keeps_algolist (demo_collab t reg st)"
  by (simp add: keeps_algolist_def demo_collab_def)

lemma demo_model_simps [simp]:
  "specs (demo_model algos) = demo_specs" "algolist (demo_model algos) = algos"
  "X_test (demo_model algos) = demo_test"
  by (simp_all add: demo_model_def)

lemma demo_collab_sel [simp]:
  "get_data (demo_collab t reg st) =
     (\<lambda>m part. if part = ''train'' then Inr (demo_train, [0, 1]) else Inr (t, [1]))"
  "drop_features (demo_collab t reg st) = (\<lambda>X cs. Inr (drop_columns X cs))"
  "create_features (demo_collab t reg st) = (\<lambda>X m sp y. Inr X)"
  "save_features (demo_collab t reg st) = (\<lambda>m tr te y1 y2. Inr (m\<lparr>X_test := te\<rparr>))"
  "create_interactions (demo_collab t reg st) = (\<lambda>X m. Inr X)"
  "remove_lv_features (demo_collab t reg st) = (\<lambda>X. Inr X)"
  "shuffle_data (demo_collab t reg st) = (\<lambda>m. Inr m)"
  "sample_data (demo_collab t reg st) = (\<lambda>m. Inr m)"
  "get_sample_weights (demo_collab t reg st) = (\<lambda>m. Inr m)"
  "get_estimators (demo_collab t reg st) = (\<lambda>m. Inr reg)"
  "scorers (demo_collab t reg st) = [''roc_auc'', ''accuracy'']"
  "select_features (demo_collab t reg st) = (\<lambda>m. Inr (m\<lparr>X_test := drop_last_column (X_test m)\<rparr>))"
  "first_fit (demo_collab t reg st) = (\<lambda>m a e. Inr m)"
  "rfecv_search (demo_collab t reg st) = (\<lambda>m a. Inr m)"
  "rfe_search (demo_collab t reg st) = (\<lambda>m a. Inr m)"
  "hyper_grid_search (demo_collab t reg st) = (\<lambda>m e. Inr m)"
  "make_predictions (demo_collab t reg st) = (\<lambda>m a c. Inr m)"
  "predict_blend (demo_collab t reg st) = (\<lambda>m. Inr m)"
  "generate_metrics (demo_collab t reg st) = (\<lambda>m part. Inr m)"
  "predict_best (demo_collab t reg st) = (\<lambda>m. Inr m)"
  "generate_plots (demo_collab t reg st) = (\<lambda>m part. Inr ())"
  "save_model (demo_collab t reg st) = (\<lambda>m l part. Inr ())"
  "persisted (demo_collab t reg st) = st"
  "predict (demo_collab t reg st) = (\<lambda>p X. Inr (map (\<lambda>r. p) (rows X)))"
  "predict_proba (demo_collab t reg st) = (\<lambda>p X. Inr (map (\<lambda>r. [1 - p, p]) (rows X)))"
  by (simp_all add: demo_collab_def)

lemmas demo_run_defs = model_pipeline_def model_pipeline_alpha_def Let_def
  loop_body_def loop_body_alpha_def after_loop_def

lemmas demo_values = demo_specs_def demo_registry_def unbound_def est_cv_def
  est_linear_def est_tree_def hasattr_def

lemma seq_pair:
  "seq (evs, Inr x) f = (case f x of (evs', out) \<Rightarrow> (evs @ evs', out))"
  "seq (evs, Inl e) f = (evs, Inl e)"
  by (simp_all add: seq_def split: prod.splits)

lemmas eval_simps = seq_pair info_def call_def ret_def raise_def read_local_def

lemma demo_blend_returns:
  "\<exists>m'. snd (model_pipeline (demo_collab t demo_partial_registry st) (demo_model [''B'', ''A'']))
          = Inr m'"
  "\<exists>m'. snd (model_pipeline (demo_collab t demo_partial_registry st) (demo_model [''B''])) = Inr m'"
  "\<exists>m'. snd (model_pipeline_alpha (demo_collab t demo_registry st) (demo_model [''A'', ''B'']))
          = Inr m'"
  "\<exists>m'. snd (model_pipeline_alpha (demo_collab t demo_registry st) (demo_model [''A''])) = Inr m'"
  by (simp_all add: demo_run_defs demo_values demo_partial_registry_def eval_simps)

theorem blend_iff_two_configured_witness:
  "list_ex is_blend
     (fst (model_pipeline (demo_collab demo_test demo_partial_registry Map.empty)
        (demo_model [''B'', ''A'']))) \<and>
   list_ex is_metrics
     (fst (model_pipeline (demo_collab demo_test demo_partial_registry Map.empty)
        (demo_model [''B'']))) \<and>
   \<not> list_ex is_blend
     (fst (model_pipeline (demo_collab demo_test demo_partial_registry Map.empty)
        (demo_model [''B'']))) \<and>
   list_ex is_blend
     (fst (model_pipeline_alpha (demo_collab demo_test demo_registry Map.empty)
        (demo_model [''A'', ''B'']))) \<and>
   list_ex is_metrics
     (fst (model_pipeline_alpha (demo_collab demo_test demo_registry Map.empty)
        (demo_model [''A'']))) \<and>
   \<not> list_ex is_blend
     (fst (model_pipeline_alpha (demo_collab demo_test demo_registry Map.empty)
        (demo_model [''A''])))"
proof -
  note t1 = blend_iff_two_configured
      [OF demo_keeps [of demo_test demo_partial_registry Map.empty], of "demo_model [''B'', ''A'']"]
  note t2 = blend_iff_two_configured
      [OF demo_keeps [of demo_test demo_partial_registry Map.empty], of "demo_model [''B'']"]
  note t3 = blend_iff_two_configured
      [OF demo_keeps [of demo_test demo_registry Map.empty], of "demo_model [''A'', ''B'']"]
  note t4 = blend_iff_two_configured
      [OF demo_keeps [of demo_test demo_registry Map.empty], of "demo_model [''A'']"]
  show ?thesis
    using t1 t2 t3 t4 demo_blend_returns [of demo_test Map.empty]
    by auto
qed

text \<open>
  C4 as stated fails. The registry resolves \<open>B\<close> and not \<open>A\<close>, and the configured list
  is \<open>[B, A]\<close>. The run logs that \<open>A\<close> was not found, and it returns; of the two
  identifiers \<open>B\<close> alone produced artifacts of its own; and the blend is called. The
  same in both files.
\<close>

theorem blend_with_one_resolved_algorithm:
  "snd (model_pipeline (demo_collab demo_test demo_partial_registry Map.empty)
          (demo_model [''B'', ''A'']))
     = Inr (demo_model [''B'', ''A'']\<lparr>X_test := drop_last_column (drop_last_column demo_test)\<rparr>) \<and>
   demo_partial_registry ''A'' = None \<and>
   Info ''Algorithm %s not found'' [Str ''A'']
     \<in> set (fst (model_pipeline (demo_collab demo_test demo_partial_registry Map.empty)
                 (demo_model [''B'', ''A'']))) \<and>
   resolved_artifact_algos (demo_collab demo_test demo_partial_registry Map.empty)
     demo_partial_registry
     (fst (model_pipeline (demo_collab demo_test demo_partial_registry Map.empty)
        (demo_model [''B'', ''A''])))
     = [''B''] \<and>
   list_ex is_blend
     (fst (model_pipeline (demo_collab demo_test demo_partial_registry Map.empty)
        (demo_model [''B'', ''A'']))) \<and>
   resolved_artifact_algos (demo_collab demo_test demo_partial_registry Map.empty)
     demo_partial_registry
     (fst (model_pipeline_alpha (demo_collab demo_test demo_partial_registry Map.empty)
        (demo_model [''B'', ''A''])))
     = [''B''] \<and>
   list_ex is_blend
     (fst (model_pipeline_alpha (demo_collab demo_test demo_partial_registry Map.empty)
        (demo_model [''B'', ''A''])))"
  by (simp add: demo_run_defs demo_values demo_partial_registry_def eval_simps
      resolved_artifact_algos_def)

section \<open>An identifier the registry does not resolve\<close>

lemma loop_body_unresolved:
  assumes "ests algo = None" and "est_var lv = None"
  shows "post (\<lambda>evs e. True) (\<lambda>evs x. False) (loop_body C cal fs gs rf ests algo (lv, m))"
  unfolding loop_body_def
  using assms by (simp only: prod.case, intro post_intros, simp_all)

lemma first_unresolved_never_returns:
  assumes "ests algo = None"
  shows "\<exists>e. snd (algo_loop C cal fs gs rf ests (algo # rest) (unbound, m)) = Inl e"
    and "\<exists>e. snd (algo_loop_alpha C cal fs gs rf ests (algo # rest) (unbound, m)) = Inl e"
proof -
  have u: "est_var unbound = None" by (simp add: unbound_def)
  have "post (\<lambda>evs e. True) (\<lambda>evs x. False) (algo_loop C cal fs' gs rf ests (algo # rest) (unbound, m))"
    for fs'
    unfolding algo_loop.simps
    by (rule post_seq_gen
          [OF loop_body_unresolved [where ests = ests and algo = algo and lv = unbound, OF assms u]])
      simp_all
  from post_fails [OF this]
  show "\<exists>e. snd (algo_loop C cal fs gs rf ests (algo # rest) (unbound, m)) = Inl e"
    and "\<exists>e. snd (algo_loop_alpha C cal fs gs rf ests (algo # rest) (unbound, m)) = Inl e"
    by (auto simp: algo_loop_alpha_eq)
qed

lemma fits_simps [simp]:
  "fits [] = []"
  "fits (ev # evs) = (case fit_of ev of None \<Rightarrow> fits evs | Some x \<Rightarrow> x # fits evs)"
  by (simp_all add: fits_def split: option.splits)

text \<open>
  C1, on the code as it is. The registry resolves \<open>B\<close> and not \<open>A\<close>. With the list
  \<open>[A, B]\<close> the run logs that \<open>A\<close> was not found, goes on to the selector for \<open>A\<close>,
  and ends with \<^verbatim>\<open>UnboundLocalError\<close> on the local \<^verbatim>\<open>est\<close>: nothing is fitted, no
  algorithm produces artifacts, \<open>B\<close> is never reached. With the list \<open>[B, A]\<close> the run
  returns, and \<open>A\<close> is fitted and predicted with the estimator object of \<open>B\<close>, left
  in the locals by the iteration before. The \<^verbatim>\<open>except KeyError\<close> branch has no
  \<^verbatim>\<open>continue\<close>. The same in both files.
\<close>

theorem unresolved_algorithm_not_skipped:
  "snd (model_pipeline (demo_collab demo_test demo_partial_registry Map.empty) (demo_model [''A'', ''B'']))
     = Inl (UnboundLocalError ''est'') \<and>
   snd (model_pipeline_alpha (demo_collab demo_test demo_partial_registry Map.empty)
          (demo_model [''A'', ''B'']))
     = Inl (UnboundLocalError ''est'') \<and>
   Info ''Algorithm %s not found'' [Str ''A'']
     \<in> set (fst (model_pipeline (demo_collab demo_test demo_partial_registry Map.empty)
                 (demo_model [''A'', ''B'']))) \<and>
   list_ex is_select
     (fst (model_pipeline (demo_collab demo_test demo_partial_registry Map.empty)
        (demo_model [''A'', ''B'']))) \<and>
   fits (fst (model_pipeline (demo_collab demo_test demo_partial_registry Map.empty)
          (demo_model [''A'', ''B'']))) = [] \<and>
   artifact_algos (demo_collab demo_test demo_partial_registry Map.empty)
     (fst (model_pipeline (demo_collab demo_test demo_partial_registry Map.empty)
        (demo_model [''A'', ''B'']))) = [] \<and>
   fits (fst (model_pipeline (demo_collab demo_test demo_partial_registry Map.empty)
          (demo_model [''B'', ''A''])))
     = [(''B'', estimator est_cv), (''A'', estimator est_cv)] \<and>
   artifact_algos (demo_collab demo_test demo_partial_registry Map.empty)
     (fst (model_pipeline (demo_collab demo_test demo_partial_registry Map.empty)
        (demo_model [''B'', ''A''])))
     = [''B'', ''A'']"
  by (simp add: demo_run_defs demo_values demo_partial_registry_def eval_simps)

section \<open>Runs that return\<close>

lemma locals_hold_unbound: "locals_hold unbound None"
  by (simp add: locals_hold_def unbound_def)

lemma registry_isD: "registry_is C ests \<Longrightarrow> get_estimators C m = Inr r \<Longrightarrow> r = ests"
  by (simp add: registry_is_def)

lemma collaborators_returnD:
  assumes "collaborators_return C"
  shows "shuffle_data C m = Inl d \<Longrightarrow> False"
    and "sample_data C m = Inl d \<Longrightarrow> False"
    and "get_sample_weights C m = Inl d \<Longrightarrow> False"
    and "get_estimators C m = Inl d \<Longrightarrow> False"
    and "select_features C m = Inl d \<Longrightarrow> False"
    and "first_fit C m a e = Inl d \<Longrightarrow> False"
    and "rfecv_search C m a = Inl d \<Longrightarrow> False"
    and "rfe_search C m a = Inl d \<Longrightarrow> False"
    and "hyper_grid_search C m est = Inl d \<Longrightarrow> False"
    and "make_predictions C m a c = Inl d \<Longrightarrow> False"
    and "predict_blend C m = Inl d \<Longrightarrow> False"
    and "generate_metrics C m p = Inl d \<Longrightarrow> False"
    and "predict_best C m = Inl d \<Longrightarrow> False"
    and "generate_plots C m p = Inl d \<Longrightarrow> False"
    and "save_model C m l p = Inl d \<Longrightarrow> False"
  using assms unfolding collaborators_return_def by simp_all

lemma loop_body_returns:
  assumes r: "collaborators_return C" and h: "locals_hold lv held"
    and e: "(case ests algo of Some e \<Rightarrow> Some e | None \<Rightarrow> held) = Some e0"
  shows "post (\<lambda>evs e. False) (\<lambda>evs s'. locals_hold (fst s') (Some e0))
           (loop_body C cal fs gs rf ests algo (lv, m))"
  unfolding loop_body_def
  using h e
  by (simp only: prod.case, intro post_intros,
      auto simp add: locals_hold_def dest: collaborators_returnD [OF r])

lemma algo_loop_returns:
  assumes r: "collaborators_return C" and h: "locals_hold lv held"
    and f: "held \<noteq> None \<or> algos = [] \<or> ests (hd algos) \<noteq> None"
  shows "post (\<lambda>evs e. False) (\<lambda>evs s'. True) (algo_loop C cal fs gs rf ests algos (lv, m))"
  using h f
proof (induction algos arbitrary: lv held m)
  case Nil
  show ?case by (simp add: post_ret)
next
  case (Cons algo rest)
  from Cons.prems(2) obtain e0
    where e0: "(case ests algo of Some e \<Rightarrow> Some e | None \<Rightarrow> held) = Some e0"
    by (cases "ests algo"; cases held) auto
  show ?case
    unfolding algo_loop.simps
  proof (rule post_seq_gen
      [OF loop_body_returns [where ests = ests and algo = algo and held = held and lv = lv
          and ?e0.0 = e0, OF r Cons.prems(1) e0]])
    fix evs :: "(('a, 'b) model_scheme, 'a, 'c) event list"
      and x :: "locals \<times> ('a, 'b) model_scheme"
    assume a: "locals_hold (fst x) (Some e0)"
    obtain lv' m' where x: "x = (lv', m')" by (cases x)
    from a x have l: "locals_hold lv' (Some e0)" by simp
    show "post (\<lambda>evs' e. False) (\<lambda>evs' y. True) (algo_loop C cal fs gs rf ests rest x)"
      unfolding x
      by (rule post_mono [OF Cons.IH [OF l, where m = m']]) simp_all
  qed simp
qed

lemma after_loop_returns:
  assumes r: "collaborators_return C"
  shows "post (\<lambda>evs e. False) (\<lambda>evs x. True) (after_loop C labels m)"
  unfolding after_loop_def
  by (intro post_intros) (auto dest: collaborators_returnD [OF r])

lemma loop_and_after_returns:
  assumes r: "collaborators_return C"
    and f: "algos = [] \<or> ests (hd algos) \<noteq> None"
  shows "post (\<lambda>evs e. False) (\<lambda>evs x. True)
           (seq (algo_loop C cal fs gs rf ests algos (unbound, m1))
              (\<lambda>(lv, model). after_loop C labels model))"
proof (rule post_seq_gen [OF algo_loop_returns [OF r locals_hold_unbound]])
  show "None \<noteq> None \<or> algos = [] \<or> ests (hd algos) \<noteq> None"
    using f by simp
next
  fix x :: "locals \<times> ('a, 'b) model_scheme"
  show "post (\<lambda>evs' e. False) (\<lambda>evs' y. True) (case x of (lv, model) \<Rightarrow> after_loop C labels model)"
    by (cases x) (simp only: prod.case, rule after_loop_returns [OF r])
qed simp

lemma model_pipeline_returns:
  assumes r: "collaborators_return C" and k: "keeps_algolist C" and g: "registry_is C ests"
    and s: "scorer (specs m) \<in> set (scorers C)"
    and f: "algolist m = [] \<or> ests (hd (algolist m)) \<noteq> None"
  shows "post (\<lambda>evs e. False) (\<lambda>evs x. True) (model_pipeline C m)"
  unfolding model_pipeline_def Let_def
  by (intro post_intros;
      ((insert s, auto dest: collaborators_returnD [OF r]; fail) |
       (rule post_mono [OF loop_and_after_returns [OF r]];
         (insert f, auto dest!: keeps_algolistD [OF k] registry_isD [OF g]))))

lemma model_pipeline_alpha_returns:
  assumes r: "collaborators_return C" and k: "keeps_algolist C" and g: "registry_is C ests"
    and s: "scorer (specs m) \<in> set (scorers C)"
    and f: "algolist m = [] \<or> ests (hd (algolist m)) \<noteq> None"
  shows "post (\<lambda>evs e. False) (\<lambda>evs x. True) (model_pipeline_alpha C m)"
  unfolding model_pipeline_alpha_def Let_def algo_loop_alpha_eq
  by (intro post_intros;
      ((insert s, auto dest: collaborators_returnD [OF r]; fail) |
       (rule post_mono [OF loop_and_after_returns [OF r]];
         (insert f, auto dest!: keeps_algolistD [OF k] registry_isD [OF g]))))

section \<open>The choice of the elimination method\<close>

lemma rfe_choices_simps [simp]:
  "rfe_choices [] = []"
  "rfe_choices (ev # evs) =
     (case rfe_choice_of ev of None \<Rightarrow> rfe_choices evs | Some c \<Rightarrow> c # rfe_choices evs)"
  "rfe_choices (evs @ evs') = rfe_choices evs @ rfe_choices evs'"
  by (simp_all add: rfe_choices_def map_filter_append split: option.splits)

lemma spec_rfe_choices_simps [simp]:
  "spec_rfe_choices ests [] = []"
  "spec_rfe_choices ests (a # algos) =
     (case ests a of None \<Rightarrow> spec_rfe_choices ests algos
      | Some e \<Rightarrow> (spec_rfe_method e, a) # spec_rfe_choices ests algos)"
  by (simp_all add: spec_rfe_choices_def split: option.splits)

lemma loop_body_no_rfe:
  "post (\<lambda>evs e. rfe_choices evs = []) (\<lambda>evs s'. rfe_choices evs = [])
     (loop_body C cal fs gs False ests algo s)"
  unfolding loop_body_def
  by (cases s) (simp only: prod.case, intro post_intros, simp_all)

lemma algo_loop_no_rfe:
  "post (\<lambda>evs e. rfe_choices evs = []) (\<lambda>evs s'. rfe_choices evs = [])
     (algo_loop C cal fs gs False ests algos s)"
proof (induction algos arbitrary: s)
  case Nil
  show ?case by (simp add: post_ret)
next
  case (Cons algo rest)
  show ?case
    unfolding algo_loop.simps
  proof (rule post_seq_gen [OF loop_body_no_rfe])
    fix evs :: "(('a, 'b) model_scheme, 'a, 'c) event list"
      and x :: "locals \<times> ('a, 'b) model_scheme"
    assume "rfe_choices evs = []"
    then show "post (\<lambda>evs' e. rfe_choices (evs @ evs') = [])
                 (\<lambda>evs' y. rfe_choices (evs @ evs') = [])
                 (algo_loop C cal fs gs False ests rest x)"
      by (auto intro: post_mono [OF Cons.IH [of x]])
  qed simp
qed

lemma loop_body_rfe_held:
  assumes "locals_hold lv held"
    and "(case ests algo of Some e \<Rightarrow> Some e | None \<Rightarrow> held) = Some e0"
  shows "post (\<lambda>evs e. rfe_choices evs = [] \<or> rfe_choices evs = [(spec_rfe_method e0, algo)])
           (\<lambda>evs s'. rfe_choices evs = [(spec_rfe_method e0, algo)] \<and>
                      locals_hold (fst s') (Some e0))
           (loop_body C cal fs gs True ests algo (lv, m))"
  unfolding loop_body_def
  using assms
  by (simp only: prod.case, intro post_intros,
      simp_all add: spec_rfe_method_def locals_hold_def)

lemma loop_body_rfe_unbound:
  assumes "ests algo = None" and "est_var lv = None"
  shows "post (\<lambda>evs e. rfe_choices evs = []) (\<lambda>evs x. False)
           (loop_body C cal fs gs rf ests algo (lv, m))"
  unfolding loop_body_def
  using assms by (simp only: prod.case, intro post_intros, simp_all)

lemma algo_loop_rfe_held:
  assumes "locals_hold lv held"
  shows "post (\<lambda>evs e. prefix (rfe_choices evs) (held_rfe_choices ests held algos))
           (\<lambda>evs s'. rfe_choices evs = held_rfe_choices ests held algos)
           (algo_loop C cal fs gs True ests algos (lv, m))"
  using assms
proof (induction algos arbitrary: lv held m)
  case Nil
  show ?case by (simp add: post_ret)
next
  case (Cons algo rest)
  show ?case
  proof (cases "case ests algo of Some e \<Rightarrow> Some e | None \<Rightarrow> held")
    case None
    then have n: "ests algo = None" and h: "held = None"
      by (simp_all split: option.splits)
    from Cons.prems h have u: "est_var lv = None"
      by (simp add: locals_hold_def)
    show ?thesis
      unfolding algo_loop.simps
      by (rule post_seq_gen
            [OF loop_body_rfe_unbound [where ests = ests and algo = algo and lv = lv, OF n u]])
        (simp_all add: None)
  next
    case (Some e0)
    show ?thesis
      unfolding algo_loop.simps
    proof (rule post_seq_gen
        [OF loop_body_rfe_held [where ests = ests and algo = algo and held = held and lv = lv
            and ?e0.0 = e0, OF Cons.prems Some]])
      fix evs :: "(('a, 'b) model_scheme, 'a, 'c) event list" and e
      assume "rfe_choices evs = [] \<or> rfe_choices evs = [(spec_rfe_method e0, algo)]"
      then show "prefix (rfe_choices evs) (held_rfe_choices ests held (algo # rest))"
        using Some by auto
    next
      fix evs :: "(('a, 'b) model_scheme, 'a, 'c) event list"
        and x :: "locals \<times> ('a, 'b) model_scheme"
      assume a: "rfe_choices evs = [(spec_rfe_method e0, algo)] \<and> locals_hold (fst x) (Some e0)"
      obtain lv' m' where x: "x = (lv', m')" by (cases x)
      from a x have l: "locals_hold lv' (Some e0)" by simp
      show "post (\<lambda>evs' e. prefix (rfe_choices (evs @ evs'))
                              (held_rfe_choices ests held (algo # rest)))
              (\<lambda>evs' y. rfe_choices (evs @ evs') = held_rfe_choices ests held (algo # rest))
              (algo_loop C cal fs gs True ests rest x)"
        unfolding x
        by (rule post_mono [OF Cons.IH [OF l, where m = m']]) (insert a Some, auto)
    qed
  qed
qed

lemma algo_loop_rfe_any:
  "post (\<lambda>evs e. prefix (rfe_choices evs) (if rf then held_rfe_choices ests None algos else []))
     (\<lambda>evs s'. rfe_choices evs = (if rf then held_rfe_choices ests None algos else []))
     (algo_loop C cal fs gs rf ests algos (unbound, m))"
proof (cases rf)
  case True
  show ?thesis
    using algo_loop_rfe_held [OF locals_hold_unbound, where C = C and cal = cal and fs = fs
        and gs = gs and ests = ests and algos = algos and m = m] True
    by simp
next
  case False
  then have r: "rf = False" by simp
  show ?thesis
    unfolding r
    by (rule post_mono [OF algo_loop_no_rfe]) simp_all
qed

lemma after_loop_no_rfe:
  "post (\<lambda>evs e. rfe_choices evs = []) (\<lambda>evs x. rfe_choices evs = []) (after_loop C labels m)"
  unfolding after_loop_def
  by (intro post_intros) simp_all

lemma loop_and_after_rfe:
  "post (\<lambda>evs e. prefix (rfe_choices evs) (if rf then held_rfe_choices ests None algos else []))
     (\<lambda>evs x. rfe_choices evs = (if rf then held_rfe_choices ests None algos else []))
     (seq (algo_loop C cal fs gs rf ests algos (unbound, m1))
        (\<lambda>(lv, model). after_loop C labels model))"
proof (rule post_seq_gen [OF algo_loop_rfe_any])
  fix evs :: "(('a, 'b) model_scheme, 'a, 'c) event list"
    and x :: "locals \<times> ('a, 'b) model_scheme"
  assume a: "rfe_choices evs = (if rf then held_rfe_choices ests None algos else [])"
  show "post (\<lambda>evs' e. prefix (rfe_choices (evs @ evs'))
                          (if rf then held_rfe_choices ests None algos else []))
          (\<lambda>evs' y. rfe_choices (evs @ evs')
                          = (if rf then held_rfe_choices ests None algos else []))
          (case x of (lv, model) \<Rightarrow> after_loop C labels model)"
    by (cases x) (simp only: prod.case, rule post_mono [OF after_loop_no_rfe], insert a, auto)
qed simp

lemma model_pipeline_rfe:
  assumes k: "keeps_algolist C" and g: "registry_is C ests"
  shows "post (\<lambda>evs e. prefix (rfe_choices evs)
                  (if rfe (specs m) then held_rfe_choices ests None (algolist m) else []))
           (\<lambda>evs x. rfe_choices evs
                  = (if rfe (specs m) then held_rfe_choices ests None (algolist m) else []))
           (model_pipeline C m)"
  unfolding model_pipeline_def Let_def
  by (intro post_intros;
      ((simp; fail) |
       (rule post_mono [OF loop_and_after_rfe];
         (auto dest!: keeps_algolistD [OF k] registry_isD [OF g]))))

lemma model_pipeline_alpha_rfe:
  assumes k: "keeps_algolist C" and g: "registry_is C ests"
  shows "post (\<lambda>evs e. prefix (rfe_choices evs)
                  (if rfe (specs m) then held_rfe_choices ests None (algolist m) else []))
           (\<lambda>evs x. rfe_choices evs
                  = (if rfe (specs m) then held_rfe_choices ests None (algolist m) else []))
           (model_pipeline_alpha C m)"
  unfolding model_pipeline_alpha_def Let_def algo_loop_alpha_eq
  by (intro post_intros;
      ((simp; fail) |
       (rule post_mono [OF loop_and_after_rfe];
         (auto dest!: keeps_algolistD [OF k] registry_isD [OF g]))))

lemma held_rfe_choices_resolved:
  "list_all (\<lambda>a. ests a \<noteq> None) algos \<Longrightarrow>
     held_rfe_choices ests held algos = spec_rfe_choices ests algos"
  by (induction algos arbitrary: held) auto

lemma held_rfe_choices_own:
  "list_all (\<lambda>c. case ests (snd c) of None \<Rightarrow> True | Some e \<Rightarrow> fst c = spec_rfe_method e)
     (held_rfe_choices ests held algos)"
  by (induction algos arbitrary: held) (auto split: option.splits)

lemma list_all_prefix: "prefix xs ys \<Longrightarrow> list_all P ys \<Longrightarrow> list_all P xs"
  by (auto simp: prefix_def)

lemma rfe_run_facts:
  assumes "post (\<lambda>evs e. prefix (rfe_choices evs) (if rf then held_rfe_choices ests None algos else []))
             (\<lambda>evs x. rfe_choices evs = (if rf then held_rfe_choices ests None algos else [])) r"
  shows "prefix (rfe_choices (fst r)) (if rf then held_rfe_choices ests None algos else []) \<and>
         (\<forall>x. snd r = Inr x \<longrightarrow>
            rfe_choices (fst r) = (if rf then held_rfe_choices ests None algos else [])) \<and>
         list_all (\<lambda>c. case ests (snd c) of None \<Rightarrow> True | Some e \<Rightarrow> fst c = spec_rfe_method e)
           (rfe_choices (fst r))"
proof -
  have p: "prefix (rfe_choices (fst r)) (if rf then held_rfe_choices ests None algos else [])"
    using assms by (cases "snd r") (auto simp: post_def)
  have "list_all (\<lambda>c. case ests (snd c) of None \<Rightarrow> True | Some e \<Rightarrow> fst c = spec_rfe_method e)
          (if rf then held_rfe_choices ests None algos else [])"
    by (simp add: held_rfe_choices_own)
  from list_all_prefix [OF p this] p assms show ?thesis
    by (cases "snd r") (auto simp: post_def)
qed

lemma demo_registry_is: "registry_is (demo_collab t reg st) reg"
  by (simp add: registry_is_def)

lemma demo_collaborators_return: "collaborators_return (demo_collab t reg st)"
  by (simp add: collaborators_return_def)

text \<open>
  C5. Provided the collaborators leave the algorithm list as it is and \<open>ests\<close> is the
  registry. With recursive feature elimination requested in the configuration, the
  elimination steps of a run of the model pipeline are, in order, the three-way choices
  of the specification, one for each iteration, as far as the run got, and exactly those,
  one for every algorithm, when the run returns; without the request there is none.
  Every choice made for an identifier that the registry resolves is the choice on the
  entry of that identifier: cross-validated elimination when the entry has a scoring
  function, else coefficient-based elimination when its estimator has the attribute
  \<^verbatim>\<open>coef_\<close>, else the log line that none is available. For an identifier that the
  registry does not resolve, the locals still hold the entry of the last identifier it
  resolved, and the same three-way choice is made on that entry. The run returns
  whenever no collaborator raises, the scorer is known and the first identifier is
  resolved. For a list that the registry resolves throughout, the choices are those the
  specification prescribes. The same holds in both files.
\<close>

theorem rfe_three_way_choice:
  assumes "keeps_algolist C" and "registry_is C ests"
  shows "prefix (rfe_choices (fst (model_pipeline C m)))
           (if rfe (specs m) then held_rfe_choices ests None (algolist m) else []) \<and>
         (\<forall>m'. snd (model_pipeline C m) = Inr m' \<longrightarrow>
            rfe_choices (fst (model_pipeline C m))
              = (if rfe (specs m) then held_rfe_choices ests None (algolist m) else [])) \<and>
         list_all (\<lambda>c. case ests (snd c) of None \<Rightarrow> True | Some e \<Rightarrow> fst c = spec_rfe_method e)
           (rfe_choices (fst (model_pipeline C m))) \<and>
         prefix (rfe_choices (fst (model_pipeline_alpha C m)))
           (if rfe (specs m) then held_rfe_choices ests None (algolist m) else []) \<and>
         (\<forall>m'. snd (model_pipeline_alpha C m) = Inr m' \<longrightarrow>
            rfe_choices (fst (model_pipeline_alpha C m))
              = (if rfe (specs m) then held_rfe_choices ests None (algolist m) else [])) \<and>
         list_all (\<lambda>c. case ests (snd c) of None \<Rightarrow> True | Some e \<Rightarrow> fst c = spec_rfe_method e)
           (rfe_choices (fst (model_pipeline_alpha C m))) \<and>
         (collaborators_return C \<and> scorer (specs m) \<in> set (scorers C) \<and>
          (algolist m = [] \<or> ests (hd (algolist m)) \<noteq> None) \<longrightarrow>
            (\<exists>m'. snd (model_pipeline C m) = Inr m') \<and>
            (\<exists>m'. snd (model_pipeline_alpha C m) = Inr m')) \<and>
         (list_all (\<lambda>a. ests a \<noteq> None) (algolist m) \<longrightarrow>
            held_rfe_choices ests None (algolist m) = spec_rfe_choices ests (algolist m))"
proof -
  have "(\<exists>m'. snd (model_pipeline C m) = Inr m') \<and> (\<exists>m'. snd (model_pipeline_alpha C m) = Inr m')"
    if r: "collaborators_return C" and s: "scorer (specs m) \<in> set (scorers C)"
      and f: "algolist m = [] \<or> ests (hd (algolist m)) \<noteq> None"
    using post_returns [OF model_pipeline_returns [OF r assms s f]]
      post_returns [OF model_pipeline_alpha_returns [OF r assms s f]]
    by blast
  then show ?thesis
    using rfe_run_facts [OF model_pipeline_rfe [OF assms, of m]]
      rfe_run_facts [OF model_pipeline_alpha_rfe [OF assms, of m]]
      held_rfe_choices_resolved [of ests "algolist m" None]
    by simp
qed

theorem rfe_three_way_choice_witness:
  "rfe_choices
     (fst (model_pipeline (demo_collab demo_test demo_registry Map.empty)
        (demo_model [''A'', ''B'', ''T''])))
     = [(CrossValidated, ''A''), (CoefficientBased, ''B''), (Skipped, ''T'')] \<and>
   rfe_choices
     (fst (model_pipeline_alpha (demo_collab demo_test demo_registry Map.empty)
        (demo_model [''A'', ''B'', ''T''])))
     = [(CrossValidated, ''A''), (CoefficientBased, ''B''), (Skipped, ''T'')] \<and>
   rfe_choices
     (fst (model_pipeline (demo_collab demo_test demo_partial_registry Map.empty)
        (demo_model [''B'', ''A''])))
     = [(CrossValidated, ''B''), (CrossValidated, ''A'')] \<and>
   rfe_choices
     (fst (model_pipeline_alpha (demo_collab demo_test demo_partial_registry Map.empty)
        (demo_model [''B'', ''A''])))
     = [(CrossValidated, ''B''), (CrossValidated, ''A'')] \<and>
   rfe_choices
     (fst (model_pipeline (demo_collab demo_test demo_registry Map.empty)
        (demo_plain_model [''A'', ''B''])))
     = [] \<and>
   rfe_choices
     (fst (model_pipeline_alpha (demo_collab demo_test demo_registry Map.empty)
        (demo_plain_model [''A'', ''B''])))
     = []"
proof -
  note t1 = rfe_three_way_choice
      [OF demo_keeps [of demo_test demo_registry Map.empty]
        demo_registry_is [of demo_test demo_registry Map.empty],
        of "demo_model [''A'', ''B'', ''T'']"]
  note t2 = rfe_three_way_choice
      [OF demo_keeps [of demo_test demo_partial_registry Map.empty]
        demo_registry_is [of demo_test demo_partial_registry Map.empty],
        of "demo_model [''B'', ''A'']"]
  note t3 = rfe_three_way_choice
      [OF demo_keeps [of demo_test demo_registry Map.empty]
        demo_registry_is [of demo_test demo_registry Map.empty],
        of "demo_plain_model [''A'', ''B'']"]
  have h1: "held_rfe_choices demo_registry None [''A'', ''B'', ''T'']
              = [(CrossValidated, ''A''), (CoefficientBased, ''B''), (Skipped, ''T'')]"
    by (simp add: spec_rfe_method_def demo_values)
  have h2: "held_rfe_choices demo_partial_registry None [''B'', ''A'']
              = [(CrossValidated, ''B''), (CrossValidated, ''A'')]"
    by (simp add: spec_rfe_method_def demo_values demo_partial_registry_def)
  have f: "rfe (specs (demo_model algos))" "\<not> rfe (specs (demo_plain_model algos))"
    "algolist (demo_plain_model algos) = algos"
    "scorer (specs (demo_model algos)) \<in> set (scorers (demo_collab t reg st))"
    "scorer (specs (demo_plain_model algos)) \<in> set (scorers (demo_collab t reg st))"
    for algos t reg st
    by (simp_all add: demo_specs_def demo_plain_model_def)
  have g: "demo_registry ''A'' \<noteq> None" "demo_partial_registry ''B'' \<noteq> None"
    by (simp_all add: demo_registry_def demo_partial_registry_def)
  show ?thesis
    using t1 t2 t3 demo_collaborators_return h1 h2 f g
    by auto
qed

section \<open>The selector in the loop\<close>

lemma fit_models_simps [simp]:
  "fit_models [] = []"
  "fit_models (ev # evs) =
     (case fit_model_of ev of None \<Rightarrow> fit_models evs | Some m \<Rightarrow> m # fit_models evs)"
  "fit_models (evs @ evs') = fit_models evs @ fit_models evs'"
  by (simp_all add: fit_models_def map_filter_append split: option.splits)

lemma loop_body_select:
  "post (\<lambda>evs e. filter is_select evs = (if fs then [SelectFeatures m] else []) \<and>
                  length (filter is_algo_log evs) = 1)
     (\<lambda>evs s'. filter is_select evs = (if fs then [SelectFeatures m] else []) \<and>
                length (filter is_algo_log evs) = 1)
     (loop_body C cal fs gs rf ests algo (lv, m))"
  unfolding loop_body_def
  by (simp only: prod.case, intro post_intros, simp_all)

lemma algo_loop_select:
  "post (\<lambda>evs e. length (filter is_select evs) = (if fs then length (filter is_algo_log evs) else 0))
     (\<lambda>evs s'. length (filter is_select evs) = (if fs then length (filter is_algo_log evs) else 0))
     (algo_loop C cal fs gs rf ests algos s)"
proof (induction algos arbitrary: s)
  case Nil
  show ?case by (simp add: post_ret)
next
  case (Cons algo rest)
  obtain lv m where s: "s = (lv, m)" by (cases s)
  show ?case
    unfolding algo_loop.simps s
  proof (rule post_seq_gen [OF loop_body_select])
    fix evs :: "(('a, 'b) model_scheme, 'a, 'c) event list"
      and x :: "locals \<times> ('a, 'b) model_scheme"
    assume a: "filter is_select evs = (if fs then [SelectFeatures m] else []) \<and>
            length (filter is_algo_log evs) = 1"
    show "post (\<lambda>evs' e. length (filter is_select (evs @ evs'))
                        = (if fs then length (filter is_algo_log (evs @ evs')) else 0))
                 (\<lambda>evs' y. length (filter is_select (evs @ evs'))
                        = (if fs then length (filter is_algo_log (evs @ evs')) else 0))
                 (algo_loop C cal fs gs rf ests rest x)"
      by (rule post_mono [OF Cons.IH [of x]]) (insert a, auto)
  qed simp
qed

lemma after_loop_select:
  "post (\<lambda>evs e. filter is_select evs = [] \<and> filter is_algo_log evs = [])
     (\<lambda>evs x. filter is_select evs = [] \<and> filter is_algo_log evs = [])
     (after_loop C labels m)"
  unfolding after_loop_def
  by (intro post_intros) simp_all

lemma loop_and_after_select:
  "post (\<lambda>evs e. length (filter is_select evs) = (if fs then length (filter is_algo_log evs) else 0))
     (\<lambda>evs x. length (filter is_select evs) = (if fs then length (filter is_algo_log evs) else 0))
     (seq (algo_loop C cal fs gs rf ests algos s) (\<lambda>(lv, model). after_loop C labels model))"
proof (rule post_seq_gen [OF algo_loop_select])
  fix evs :: "(('a, 'b) model_scheme, 'a, 'c) event list"
    and x :: "locals \<times> ('a, 'b) model_scheme"
  assume a: "length (filter is_select evs) = (if fs then length (filter is_algo_log evs) else 0)"
  show "post (\<lambda>evs' e. length (filter is_select (evs @ evs'))
                      = (if fs then length (filter is_algo_log (evs @ evs')) else 0))
               (\<lambda>evs' y. length (filter is_select (evs @ evs'))
                      = (if fs then length (filter is_algo_log (evs @ evs')) else 0))
               (case x of (lv, model) \<Rightarrow> after_loop C labels model)"
    by (cases x) (simp only: prod.case, rule post_mono [OF after_loop_select], insert a, auto)
qed simp

lemma model_pipeline_select:
  "post (\<lambda>evs e. length (filter is_select evs)
                  = (if feature_selection (specs m) then length (filter is_algo_log evs) else 0))
     (\<lambda>evs x. length (filter is_select evs)
                  = (if feature_selection (specs m) then length (filter is_algo_log evs) else 0))
     (model_pipeline C m)"
  unfolding model_pipeline_def Let_def
  by (intro post_intros;
      ((simp; fail) | (rule post_mono [OF loop_and_after_select]; simp)))

lemma model_pipeline_alpha_select:
  "post (\<lambda>evs e. length (filter is_select evs)
                  = (if feature_selection (specs m) \<and> \<not> grid_search (specs m)
                     then length (filter is_algo_log evs) else 0))
     (\<lambda>evs x. length (filter is_select evs)
                  = (if feature_selection (specs m) \<and> \<not> grid_search (specs m)
                     then length (filter is_algo_log evs) else 0))
     (model_pipeline_alpha C m)"
  unfolding model_pipeline_alpha_def Let_def algo_loop_alpha_eq
  by (intro post_intros;
      ((simp; fail) | (rule post_mono [OF loop_and_after_select]; simp)))

lemma selector_alone_changesD:
  assumes "selector_alone_changes C obs red"
  shows "select_features C m = Inr m' \<Longrightarrow> obs m' = red (obs m)"
    and "first_fit C m a e = Inr m' \<Longrightarrow> obs m' = obs m"
    and "rfecv_search C m a = Inr m' \<Longrightarrow> obs m' = obs m"
    and "rfe_search C m a = Inr m' \<Longrightarrow> obs m' = obs m"
    and "hyper_grid_search C m est = Inr m' \<Longrightarrow> obs m' = obs m"
    and "make_predictions C m a c = Inr m' \<Longrightarrow> obs m' = obs m"
  using assms unfolding selector_alone_changes_def by simp_all

lemma loop_body_observes:
  assumes "selector_alone_changes C obs red"
  shows "post (\<lambda>evs e. map obs (fit_models evs) = [] \<or> map obs (fit_models evs) = [red (obs m)])
           (\<lambda>evs s'. map obs (fit_models evs) = [red (obs m)] \<and> obs (snd s') = red (obs m))
           (loop_body C cal True gs rf ests algo (lv, m))"
  unfolding loop_body_def
  by (simp only: prod.case, intro post_intros,
      auto dest!: selector_alone_changesD [OF assms])

lemma funpow_upt_shift:
  "red x # map (\<lambda>k. (red ^^ Suc k) (red x)) [0..<n] = map (\<lambda>k. (red ^^ Suc k) x) [0..<Suc n]"
proof -
  have "map (\<lambda>k. (red ^^ Suc k) x) [0..<Suc n]
          = (red ^^ Suc 0) x # map (\<lambda>k. (red ^^ Suc k) x) (map Suc [0..<n])"
    by (simp only: upt_conv_Cons [of 0 "Suc n"] map_Suc_upt [symmetric] list.map)
  also have "\<dots> = red x # map (\<lambda>k. (red ^^ Suc k) (red x)) [0..<n]"
    by (simp add: funpow_swap1 del: upt_Suc)
  finally show ?thesis by simp
qed

lemma algo_loop_observes:
  assumes "selector_alone_changes C obs red"
  shows "post (\<lambda>evs e. map obs (fit_models evs)
                         = map (\<lambda>k. (red ^^ Suc k) (obs (snd s))) [0..<length (fit_models evs)])
           (\<lambda>evs s'. map obs (fit_models evs)
                         = map (\<lambda>k. (red ^^ Suc k) (obs (snd s))) [0..<length (fit_models evs)] \<and>
                      length (fit_models evs) = length algos \<and>
                      obs (snd s') = (red ^^ length algos) (obs (snd s)))
           (algo_loop C cal True gs rf ests algos s)"
proof (induction algos arbitrary: s)
  case Nil
  show ?case by (simp add: post_ret)
next
  case (Cons algo rest)
  obtain lv m where s: "s = (lv, m)" by (cases s)
  show ?case
    unfolding algo_loop.simps s
  proof (rule post_seq_gen [OF loop_body_observes [OF assms]])
    fix evs :: "(('a, 'b) model_scheme, 'a, 'c) event list" and e
    assume "map obs (fit_models evs) = [] \<or> map obs (fit_models evs) = [red (obs m)]"
    then show "map obs (fit_models evs)
                 = map (\<lambda>k. (red ^^ Suc k) (obs (snd (lv, m)))) [0..<length (fit_models evs)]"
    proof
      assume "map obs (fit_models evs) = []"
      then show ?thesis by simp
    next
      assume one: "map obs (fit_models evs) = [red (obs m)]"
      then have "length (fit_models evs) = 1"
        by (metis length_map length_Cons list.size(3) One_nat_def)
      then show ?thesis using one by simp
    qed
  next
    fix evs :: "(('a, 'b) model_scheme, 'a, 'c) event list"
      and x :: "locals \<times> ('a, 'b) model_scheme"
    assume a: "map obs (fit_models evs) = [red (obs m)] \<and> obs (snd x) = red (obs m)"
    then have l: "length (fit_models evs) = 1"
      by (metis length_map length_Cons list.size(3) One_nat_def)
    show "post (\<lambda>evs' e. map obs (fit_models (evs @ evs'))
                   = map (\<lambda>k. (red ^^ Suc k) (obs (snd (lv, m))))
                       [0..<length (fit_models (evs @ evs'))])
            (\<lambda>evs' y. map obs (fit_models (evs @ evs'))
                   = map (\<lambda>k. (red ^^ Suc k) (obs (snd (lv, m))))
                       [0..<length (fit_models (evs @ evs'))] \<and>
                 length (fit_models (evs @ evs')) = length (algo # rest) \<and>
                 obs (snd y) = (red ^^ length (algo # rest)) (obs (snd (lv, m))))
            (algo_loop C cal True gs rf ests rest x)"
    proof (rule post_mono [OF Cons.IH [of x]])
      fix evs' :: "(('a, 'b) model_scheme, 'a, 'c) event list" and e
      assume "map obs (fit_models evs')
                = map (\<lambda>k. (red ^^ Suc k) (obs (snd x))) [0..<length (fit_models evs')]"
      then show "map obs (fit_models (evs @ evs'))
                   = map (\<lambda>k. (red ^^ Suc k) (obs (snd (lv, m))))
                       [0..<length (fit_models (evs @ evs'))]"
        using a l funpow_upt_shift [of red "obs m" "length (fit_models evs')"]
        by (simp del: upt_Suc)
    next
      fix evs' :: "(('a, 'b) model_scheme, 'a, 'c) event list"
        and y :: "locals \<times> ('a, 'b) model_scheme"
      assume "map obs (fit_models evs')
                = map (\<lambda>k. (red ^^ Suc k) (obs (snd x))) [0..<length (fit_models evs')] \<and>
              length (fit_models evs') = length rest \<and>
              obs (snd y) = (red ^^ length rest) (obs (snd x))"
      then show "map obs (fit_models (evs @ evs'))
                   = map (\<lambda>k. (red ^^ Suc k) (obs (snd (lv, m))))
                       [0..<length (fit_models (evs @ evs'))] \<and>
                 length (fit_models (evs @ evs')) = length (algo # rest) \<and>
                 obs (snd y) = (red ^^ length (algo # rest)) (obs (snd (lv, m)))"
        using a l funpow_upt_shift [of red "obs m" "length (fit_models evs')"]
        by (simp add: funpow_swap1 del: upt_Suc)
    qed
  qed
qed

lemma select_facts:
  assumes "post (\<lambda>evs e. length (filter is_select evs) = (if c then length (filter is_algo_log evs) else 0))
             (\<lambda>evs x. length (filter is_select evs) = (if c then length (filter is_algo_log evs) else 0)) r"
  shows "(c \<longrightarrow> length (filter is_select (fst r)) = length (filter is_algo_log (fst r))) \<and>
         (\<not> c \<longrightarrow> filter is_select (fst r) = [])"
  using post_always [OF assms] by (cases c) simp_all

lemma observe_facts:
  assumes "post (\<lambda>evs e. P evs) (\<lambda>evs s'. P evs \<and> Q evs s') r"
  shows "P (fst r) \<and> (\<forall>s'. snd r = Inr s' \<longrightarrow> Q (fst r) s')"
  using assms by (cases "snd r") (auto simp: post_def)

text \<open>
  C6, as amended. In \<^verbatim>\<open>__main__.py\<close>, with feature selection enabled the selector is
  called once in every iteration the loop begins, whatever the other options, and
  never without it. In \<^verbatim>\<open>alpha.py\<close> that holds when feature selection is enabled and
  grid search is not; with grid search enabled the selector is never called. Where
  the selector runs, its effect is not scoped to the algorithm: for any observation of
  the model that the selector alone changes, the fit of the k-th algorithm sees the
  observation after k reductions, and the model that leaves the loop has been reduced
  once for every algorithm.
\<close>

theorem selector_every_iteration:
  assumes "selector_alone_changes C obs red"
  shows "(feature_selection (specs m) \<longrightarrow>
            length (filter is_select (fst (model_pipeline C m)))
              = length (filter is_algo_log (fst (model_pipeline C m)))) \<and>
         (\<not> feature_selection (specs m) \<longrightarrow> filter is_select (fst (model_pipeline C m)) = []) \<and>
         (feature_selection (specs m) \<and> \<not> grid_search (specs m) \<longrightarrow>
            length (filter is_select (fst (model_pipeline_alpha C m)))
              = length (filter is_algo_log (fst (model_pipeline_alpha C m)))) \<and>
         (\<not> (feature_selection (specs m) \<and> \<not> grid_search (specs m)) \<longrightarrow>
            filter is_select (fst (model_pipeline_alpha C m)) = []) \<and>
         map obs (fit_models (fst (algo_loop C cal True gs rf ests algos (lv, m0))))
           = map (\<lambda>k. (red ^^ Suc k) (obs m0))
               [0..<length (fit_models (fst (algo_loop C cal True gs rf ests algos (lv, m0))))] \<and>
         (\<forall>s'. snd (algo_loop C cal True gs rf ests algos (lv, m0)) = Inr s' \<longrightarrow>
            length (fit_models (fst (algo_loop C cal True gs rf ests algos (lv, m0)))) = length algos \<and>
            obs (snd s') = (red ^^ length algos) (obs m0)) \<and>
         map obs (fit_models (fst (algo_loop_alpha C cal True False rf ests algos (lv, m0))))
           = map (\<lambda>k. (red ^^ Suc k) (obs m0))
               [0..<length (fit_models (fst (algo_loop_alpha C cal True False rf ests algos (lv, m0))))] \<and>
         (\<forall>s'. snd (algo_loop_alpha C cal True False rf ests algos (lv, m0)) = Inr s' \<longrightarrow>
            length (fit_models (fst (algo_loop_alpha C cal True False rf ests algos (lv, m0))))
              = length algos \<and>
            obs (snd s') = (red ^^ length algos) (obs m0))"
proof -
  note a = select_facts [OF model_pipeline_select [of m C]]
  note b = select_facts [OF model_pipeline_alpha_select [of m C]]
  note c = observe_facts [OF algo_loop_observes [OF assms,
        where s = "(lv, m0)" and cal = cal and gs = gs and rf = rf and ests = ests and algos = algos]]
  note d = observe_facts [OF algo_loop_observes [OF assms,
        where s = "(lv, m0)" and cal = cal and gs = False and rf = rf and ests = ests
          and algos = algos]]
  show ?thesis
    using a b c d by (simp add: algo_loop_alpha_eq)
qed

lemma demo_selector:
  "selector_alone_changes (demo_collab t reg st) (\<lambda>m. shape1 (X_test m)) (\<lambda>n. n - 1)"
  by (simp add: selector_alone_changes_def shape1_def drop_last_column_def)

lemma demo_two_loop_returns:
  "snd (algo_loop (demo_collab t demo_registry st) False True False True demo_registry
          [''A'', ''B''] (unbound, demo_model []))
     = Inr (\<lparr>estimator_var = Some est_linear, scoring_var = Some False,
              est_var = Some (estimator est_linear)\<rparr>,
            demo_model []\<lparr>X_test := drop_last_column (drop_last_column demo_test)\<rparr>)"
  by (simp add: demo_run_defs demo_values eval_simps)

theorem selector_every_iteration_witness:
  "length (filter is_select
      (fst (model_pipeline (demo_collab demo_test demo_registry Map.empty) (demo_model [''A'', ''B'']))))
     = length (filter is_algo_log
      (fst (model_pipeline (demo_collab demo_test demo_registry Map.empty) (demo_model [''A'', ''B''])))) \<and>
   map (\<lambda>m. shape1 (X_test m))
     (fit_models (fst (algo_loop (demo_collab demo_test demo_registry Map.empty) False True False True
        demo_registry [''A'', ''B''] (unbound, demo_model []))))
     = [2, 1]"
proof -
  note t = selector_every_iteration
      [OF demo_selector [where t = demo_test and reg = demo_registry and st = Map.empty],
        where m = "demo_model [''A'', ''B'']" and cal = False and gs = False and rf = True
        and ests = demo_registry and algos = "[''A'', ''B'']" and lv = unbound
        and ?m0.0 = "demo_model []"]
  have f: "feature_selection (specs (demo_model [''A'', ''B'']))"
    by (simp add: demo_specs_def)
  have n: "shape1 (X_test (demo_model [])) = 3"
    by (simp add: shape1_def demo_test_def)
  have u: "[0..<2] = [0, Suc 0]"
    by (simp add: upt_rec)
  show ?thesis
    using t f n u demo_two_loop_returns [of demo_test Map.empty]
    by (simp add: numeral_2_eq_2)
qed

text \<open>
  C6 as stated fails in \<^verbatim>\<open>alpha.py\<close>: with feature selection and grid search both
  enabled, a run over two resolved algorithms begins two iterations, produces the
  artifacts of both, and never calls the selector.
\<close>

theorem selector_skipped_with_grid_search:
  "feature_selection (specs demo_grid_model) \<and>
   filter is_select
     (fst (model_pipeline_alpha (demo_collab demo_test demo_registry Map.empty) demo_grid_model)) = [] \<and>
   length (filter is_algo_log
     (fst (model_pipeline_alpha (demo_collab demo_test demo_registry Map.empty) demo_grid_model))) = 2 \<and>
   artifact_algos (demo_collab demo_test demo_registry Map.empty)
     (fst (model_pipeline_alpha (demo_collab demo_test demo_registry Map.empty) demo_grid_model))
     = [''A'', ''B'']"
  by (simp add: demo_grid_model_def demo_run_defs demo_values eval_simps)

end
